theory Spec2Isabelle
  imports Main
begin

section \<open>Errors and panics\<close>

text \<open>
  Modelled from the spec: the error kinds of the driver (\<open>InvalidArgumentError\<close> and the
  kinds the transport produces) and \<open>WithStack\<close>, which are declared outside the files
  under verification. \<open>WithStack e\<close> annotates \<open>e\<close> with the call site and keeps its kind;
  \<open>Cause\<close> strips the annotations again.
\<close>

datatype error =
    InvalidArgumentError string
  | InvalidKeyError string
  | NotFoundError
  | ResponseError int
  | DecodeError string
  | TransportError string
  | WithStack error

fun Cause :: "error \<Rightarrow> error" where
  "Cause (WithStack e) = Cause e"
| "Cause e = e"

fun IsInvalidArgument :: "error \<Rightarrow> bool" where
  "IsInvalidArgument e = (case Cause e of InvalidArgumentError m \<Rightarrow> True | _ \<Rightarrow> False)"

text \<open>
  A Go function either returns or panics. \<open>Panicked m\<close> is a run-time panic with
  message \<open>m\<close>; it unwinds through every caller of this package, none of which recovers.
\<close>

datatype 'a res = Panicked string | Returned 'a

section \<open>Strings\<close>

text \<open>
  \<open>strings.Split(s, sep)\<close> for a separator of one byte \<open>c\<close>: the pieces of \<open>s\<close> between
  the occurrences of \<open>c\<close>, one more piece than there are occurrences.
\<close>

fun strings_Split :: "string \<Rightarrow> char \<Rightarrow> string list" where
  "strings_Split [] c = [[]]"
| "strings_Split (x # xs) c =
     (if x = c then [] # strings_Split xs c
      else (case strings_Split xs c of
              [] \<Rightarrow> [[x]]
            | p # ps \<Rightarrow> (x # p) # ps))"

section \<open>Indexes\<close>

subsection \<open>Index types (index.go)\<close>

type_synonym IndexType = string

definition PrimaryIndex :: IndexType where "PrimaryIndex = ''primary''"
definition FullTextIndex :: IndexType where "FullTextIndex = ''fulltext''"
definition HashIndex :: IndexType where "HashIndex = ''hash''"
definition SkipListIndex :: IndexType where "SkipListIndex = ''skiplist''"
definition PersistentIndex :: IndexType where "PersistentIndex = ''persistent''"
definition GeoIndex :: IndexType where "GeoIndex = ''geo''"

subsection \<open>The index implementation\<close>

text \<open>
  \<open>indexStringToType\<close> is a \<open>switch\<close> on the string; the cases are tried in the order
  of the source and the first match returns.
\<close>

definition indexStringToType :: "string \<Rightarrow> IndexType \<times> error option" where
  "indexStringToType indexTypeString =
     (if indexTypeString = FullTextIndex then (FullTextIndex, None)
      else if indexTypeString = HashIndex then (HashIndex, None)
      else if indexTypeString = SkipListIndex then (SkipListIndex, None)
      else if indexTypeString = PrimaryIndex then (PrimaryIndex, None)
      else if indexTypeString = PersistentIndex then (PersistentIndex, None)
      else if indexTypeString = GeoIndex \<or> indexTypeString = ''geo1''
              \<or> indexTypeString = ''geo2'' then (GeoIndex, None)
      else ('''', Some (WithStack (InvalidArgumentError ''unknown index type''))))"

record indexData =
  id_of :: string
  typestr :: string
  fields_of :: "string list"
  unique :: "bool option"
  deduplicate :: "bool option"
  sparse :: "bool option"
  geoJSON :: "bool option"
  minLength :: int

text \<open>
  A \<open>*collection\<close> is a pointer that may be nil (\<open>None\<close>). Of the collection only the two
  references \<open>newIndex\<close> copies are modelled; the database and the connection
  themselves are opaque (\<open>'d\<close>, \<open>'c\<close>), and a nil reference is \<open>None\<close>.
\<close>

record ('d, 'c) collection =
  col_db :: "'d option"
  col_conn :: "'c option"

record ('d, 'c) index =
  data :: indexData
  indexType :: IndexType
  db :: "'d option"
  col :: "('d, 'c) collection option"
  conn :: "'c option"

definition newIndex ::
  "indexData \<Rightarrow> ('d, 'c) collection option \<Rightarrow> ('d, 'c) index option \<times> error option" where
  "newIndex dat cl =
     (if id_of dat = '''' then (None, Some (WithStack (InvalidArgumentError ''id is empty'')))
      else let parts = strings_Split (id_of dat) CHR ''/'' in
        if length parts \<noteq> 2
        then (None, Some (WithStack (InvalidArgumentError ''id must be `collection/name`'')))
        else (case cl of
                None \<Rightarrow> (None, Some (WithStack (InvalidArgumentError ''col is nil'')))
              | Some c \<Rightarrow>
                 (case indexStringToType (typestr dat) of
                    (ty, Some err) \<Rightarrow> (None, Some (WithStack err))
                  | (ty, None) \<Rightarrow>
                      (Some \<lparr>data = dat, indexType = ty, db = col_db c,
                             col = Some c, conn = col_conn c\<rparr>, None))))"

text \<open>
  \<open>Name\<close> indexes the split id at 1; Go panics when the slice has fewer than two
  elements.
\<close>

definition Name :: "('d, 'c) index \<Rightarrow> string res" where
  "Name i =
     (let parts = strings_Split (id_of (data i)) CHR ''/'' in
      if 1 < length parts then Returned (parts ! 1)
      else Panicked ''runtime error: index out of range'')"

definition Type :: "('d, 'c) index \<Rightarrow> IndexType" where
  "Type i = indexType i"

definition Fields :: "('d, 'c) index \<Rightarrow> string list" where
  "Fields i = fields_of (data i)"

definition boolOrFalse :: "bool option \<Rightarrow> bool" where
  "boolOrFalse ptr = (case ptr of Some b \<Rightarrow> b | None \<Rightarrow> False)"

definition IsUnique :: "('d, 'c) index \<Rightarrow> bool" where
  "IsUnique i = boolOrFalse (unique (data i))"

definition IsSparse :: "('d, 'c) index \<Rightarrow> bool" where
  "IsSparse i = boolOrFalse (unique (data i))"

definition IsDeduplicate :: "('d, 'c) index \<Rightarrow> bool" where
  "IsDeduplicate i = boolOrFalse (deduplicate (data i))"

definition IsGeoJSON :: "('d, 'c) index \<Rightarrow> bool" where
  "IsGeoJSON i = boolOrFalse (geoJSON (data i))"

definition MinLength :: "('d, 'c) index \<Rightarrow> int" where
  "MinLength i = minLength (data i)"

section \<open>Formatting\<close>

text \<open>
  \<open>fmt.Sprintf\<close> is used with three verbs. \<open>%d\<close> prints a non-negative \<open>int\<close> in
  decimal. \<open>%s\<close> applied to an \<open>int\<close> is a verb of the wrong type, which \<open>fmt\<close> prints
  as \<open>%!s(int=N)\<close>. \<open>%s\<close> applied to a \<open>reflect.Kind\<close> prints the kind's name.
\<close>

function fmt_d :: "nat \<Rightarrow> string" where
  "fmt_d n =
     (if n < 10 then [''0123456789'' ! n]
      else fmt_d (n div 10) @ [''0123456789'' ! (n mod 10)])"
  by pat_completeness auto
termination
  by (relation "measure (\<lambda>n. n)") auto

definition fmt_s_int :: "nat \<Rightarrow> string" where
  "fmt_s_int n = ''%!s(int='' @ fmt_d n @ '')''"

section \<open>Values seen through reflection\<close>

text \<open>
  The batch operations take their documents as \<open>interface{}\<close> and inspect them with
  package \<open>reflect\<close>. A \<open>reflect.Value\<close> is modelled by the Go value it holds
  together with its static type, which decides its \<open>Kind\<close> and what \<open>String\<close> prints.
  The model covers \<open>bool\<close>, \<open>int\<close>, \<open>string\<close>, \<open>interface{}\<close>, named structs, pointers,
  slices, arrays and maps with \<open>string\<close> keys; the scalars of other widths, channels
  and functions are left out.
\<close>

datatype gotype =
    T_bool
  | T_int
  | T_string
  | T_interface
  | T_struct string
  | T_ptr gotype
  | T_slice gotype
  | T_array nat gotype
  | T_map gotype

fun Type_String :: "gotype \<Rightarrow> string" where
  "Type_String T_bool = ''bool''"
| "Type_String T_int = ''int''"
| "Type_String T_string = ''string''"
| "Type_String T_interface = ''interface {}''"
| "Type_String (T_struct n) = n"
| "Type_String (T_ptr t) = ''*'' @ Type_String t"
| "Type_String (T_slice t) = ''[]'' @ Type_String t"
| "Type_String (T_array n t) = ''['' @ fmt_d n @ '']'' @ Type_String t"
| "Type_String (T_map t) = ''map[string]'' @ Type_String t"

text \<open>
  \<open>ZeroValue\<close> is the zero \<open>reflect.Value\<close>, whose kind is \<open>Invalid\<close>. A struct
  carries the name of its type and its fields in declaration order, each as the value
  of its \<open>json\<close> tag (what \<open>Tag.Get("json")\<close> returns) and the field's value. A map,
  a pointer and a slice carry their element type, and \<open>None\<close> for nil. A value of
  interface type holds a dynamic value or nil; the elements of a \<open>[]interface{}\<close> and
  the entries of a \<open>map[string]interface{}\<close> are such values.
\<close>

datatype rvalue =
    ZeroValue
  | BoolV bool
  | IntV int
  | StringV string
  | StructV string "(string \<times> rvalue) list"
  | MapV gotype "(string \<times> rvalue) list option"
  | PtrV gotype "rvalue option"
  | InterfaceV "rvalue option"
  | SliceV gotype "rvalue list option"
  | ArrayV gotype "rvalue list"

datatype kind =
    reflect_Invalid
  | reflect_Bool
  | reflect_Int
  | reflect_String
  | reflect_Struct
  | reflect_Map
  | reflect_Ptr
  | reflect_Interface
  | reflect_Slice
  | reflect_Array

fun Kind :: "rvalue \<Rightarrow> kind" where
  "Kind ZeroValue = reflect_Invalid"
| "Kind (BoolV b) = reflect_Bool"
| "Kind (IntV i) = reflect_Int"
| "Kind (StringV s) = reflect_String"
| "Kind (StructV n fs) = reflect_Struct"
| "Kind (MapV t m) = reflect_Map"
| "Kind (PtrV t p) = reflect_Ptr"
| "Kind (InterfaceV x) = reflect_Interface"
| "Kind (SliceV t xs) = reflect_Slice"
| "Kind (ArrayV t xs) = reflect_Array"

fun Kind_String :: "kind \<Rightarrow> string" where
  "Kind_String reflect_Invalid = ''invalid''"
| "Kind_String reflect_Bool = ''bool''"
| "Kind_String reflect_Int = ''int''"
| "Kind_String reflect_String = ''string''"
| "Kind_String reflect_Struct = ''struct''"
| "Kind_String reflect_Map = ''map''"
| "Kind_String reflect_Ptr = ''ptr''"
| "Kind_String reflect_Interface = ''interface''"
| "Kind_String reflect_Slice = ''slice''"
| "Kind_String reflect_Array = ''array''"

fun Value_Type :: "rvalue \<Rightarrow> gotype" where
  "Value_Type (BoolV b) = T_bool"
| "Value_Type (IntV i) = T_int"
| "Value_Type (StringV s) = T_string"
| "Value_Type (StructV n fs) = T_struct n"
| "Value_Type (MapV t m) = T_map t"
| "Value_Type (PtrV t p) = T_ptr t"
| "Value_Type (InterfaceV x) = T_interface"
| "Value_Type (SliceV t xs) = T_slice t"
| "Value_Type (ArrayV t xs) = T_array (length xs) t"
| "Value_Type ZeroValue = T_interface"

text \<open>
  The methods of \<open>reflect.Value\<close> the code calls. \<open>IsNil\<close> is defined for maps,
  pointers, interfaces and slices (and for channels and functions) and panics on every
  other kind, the zero Value included. \<open>Elem\<close> follows a pointer or an interface.
  \<open>String\<close> returns the string of a value of kind \<open>String\<close>, and for any other
  value, without panicking, the text \<open><T Value>\<close> where \<open>T\<close> is its type.
  \<open>MapIndex\<close> returns the zero Value for a key the map does not have. \<open>Interface\<close>
  returns the value as an \<open>interface{}\<close>, which is nil only for a nil value of
  interface type. \<open>Len\<close> and \<open>Index\<close> read a slice or an array, and \<open>Index\<close> panics
  out of range.
\<close>

fun IsNil :: "rvalue \<Rightarrow> bool res" where
  "IsNil (MapV t m) = Returned (m = None)"
| "IsNil (PtrV t p) = Returned (p = None)"
| "IsNil (InterfaceV x) = Returned (x = None)"
| "IsNil (SliceV t xs) = Returned (xs = None)"
| "IsNil ZeroValue = Panicked ''reflect: call of reflect.Value.IsNil on zero Value''"
| "IsNil v = Panicked (''reflect: call of reflect.Value.IsNil on '' @ Kind_String (Kind v) @ '' Value'')"

fun Elem :: "rvalue \<Rightarrow> rvalue res" where
  "Elem (PtrV t (Some v)) = Returned v"
| "Elem (PtrV t None) = Returned ZeroValue"
| "Elem (InterfaceV (Some v)) = Returned v"
| "Elem (InterfaceV None) = Returned ZeroValue"
| "Elem ZeroValue = Panicked ''reflect: call of reflect.Value.Elem on zero Value''"
| "Elem v = Panicked (''reflect: call of reflect.Value.Elem on '' @ Kind_String (Kind v) @ '' Value'')"

definition Value_String :: "rvalue \<Rightarrow> string" where
  "Value_String v =
     (case v of
        StringV s \<Rightarrow> s
      | ZeroValue \<Rightarrow> ''<invalid Value>''
      | _ \<Rightarrow> ''<'' @ Type_String (Value_Type v) @ '' Value>'')"

definition MapIndex :: "rvalue \<Rightarrow> string \<Rightarrow> rvalue res" where
  "MapIndex v key =
     (case v of
        MapV t None \<Rightarrow> Returned ZeroValue
      | MapV t (Some entries) \<Rightarrow>
          (case map_of entries key of None \<Rightarrow> Returned ZeroValue | Some x \<Rightarrow> Returned x)
      | ZeroValue \<Rightarrow> Panicked ''reflect: call of reflect.Value.MapIndex on zero Value''
      | _ \<Rightarrow> Panicked (''reflect: call of reflect.Value.MapIndex on '' @ Kind_String (Kind v)
                        @ '' Value''))"

definition ValueOf :: "rvalue option \<Rightarrow> rvalue" where
  "ValueOf i = (case i of None \<Rightarrow> ZeroValue | Some v \<Rightarrow> v)"

definition Value_Interface :: "rvalue \<Rightarrow> rvalue option" where
  "Value_Interface v = (case v of InterfaceV x \<Rightarrow> x | _ \<Rightarrow> Some v)"

definition Value_Len :: "rvalue \<Rightarrow> nat" where
  "Value_Len v =
     (case v of SliceV t None \<Rightarrow> 0 | SliceV t (Some xs) \<Rightarrow> length xs | ArrayV t xs \<Rightarrow> length xs
      | _ \<Rightarrow> 0)"

definition Value_Index :: "rvalue \<Rightarrow> nat \<Rightarrow> rvalue res" where
  "Value_Index v i =
     (case v of
        SliceV t (Some xs) \<Rightarrow>
          if i < length xs then Returned (xs ! i)
          else Panicked ''reflect: slice index out of range''
      | SliceV t None \<Rightarrow> Panicked ''reflect: slice index out of range''
      | ArrayV t xs \<Rightarrow>
          if i < length xs then Returned (xs ! i)
          else Panicked ''reflect: array index out of range''
      | ZeroValue \<Rightarrow> Panicked ''reflect: call of reflect.Value.Index on zero Value''
      | _ \<Rightarrow> Panicked (''reflect: call of reflect.Value.Index on '' @ Kind_String (Kind v)
                        @ '' Value''))"

text \<open>
  The loop of \<open>getKeyFromDocument\<close> over the fields of a struct: the first field whose
  \<open>json\<close> tag, cut at the first comma, is \<open>_key\<close> gives the key.
\<close>

fun findKeyField :: "(string \<times> rvalue) list \<Rightarrow> (string \<times> error option) res" where
  "findKeyField [] =
     Returned ('''', Some (WithStack (InvalidArgumentError ''Document contains no '_key' field'')))"
| "findKeyField ((tag, keyVal) # fs) =
     (case strings_Split tag CHR '','' of
        [] \<Rightarrow> Panicked ''runtime error: index out of range''
      | t0 # ts \<Rightarrow>
          if t0 = ''_key'' then Returned (Value_String keyVal, None) else findKeyField fs)"


section \<open>Documents\<close>

text \<open>
  Modelled from the spec: \<open>DocumentMeta\<close>, the result of a successful single-document
  operation, identifies the document by key, collection-qualified id and revision. Its
  zero value \<open>DocumentMeta{}\<close> has three empty strings.
\<close>

record DocumentMeta =
  Key :: string
  ID :: string
  Rev :: string

definition DocumentMeta_zero :: DocumentMeta where
  "DocumentMeta_zero = \<lparr>Key = [], ID = [], Rev = []\<rparr>"

text \<open>
  Modelled from the spec: \<open>contextSettings\<close>, derived once per call from the caller's
  context. Only the fields the document operations read are modelled. A sink
  (\<open>ReturnOld\<close>, \<open>ReturnNew\<close>) is the address of the caller's result object, and a nil
  sink is \<open>None\<close>. \<open>okStatus\<close> returns its first argument when synchronous durability
  was requested and its second otherwise.
\<close>

type_synonym sink = nat

record contextSettings =
  Silent :: bool
  WaitForSync :: bool
  ReturnOld :: "sink option"
  ReturnNew :: "sink option"

definition contextSettings_zero :: contextSettings where
  "contextSettings_zero =
     \<lparr>Silent = False, WaitForSync = False, ReturnOld = None, ReturnNew = None\<rparr>"

definition okStatus :: "contextSettings \<Rightarrow> int \<Rightarrow> int \<Rightarrow> int" where
  "okStatus cs statusWithWaitForSync statusWithoutWaitForSync =
     (if WaitForSync cs then statusWithWaitForSync else statusWithoutWaitForSync)"

text \<open>
  Modelled from the spec: \<open>Response.CheckStatus(acceptedCodes...)\<close> succeeds when the
  status of the response is one of the accepted codes and otherwise classifies it, as
  \<open>NotFoundError\<close> for 404 and as a generic response error for any other status.
\<close>

definition CheckStatus :: "int \<Rightarrow> int list \<Rightarrow> error option" where
  "CheckStatus status acceptedCodes =
     (if status \<in> set acceptedCodes then None
      else if status = 404 then Some NotFoundError
      else Some (ResponseError status))"

subsection \<open>The collaborators of an edge collection\<close>

text \<open>
  The operations of \<open>edgeCollection\<close> reach everything outside this file through the
  collection \<open>c\<close>: its connection (\<open>NewRequest\<close>, \<open>Do\<close>), the requests and responses
  the connection hands out (\<open>SetBody\<close>, the status, \<open>ParseBody\<close>), its \<open>relPath\<close>, and
  the package functions \<open>validateKey\<close>, \<open>pathEscape\<close>, \<open>path.Join\<close> and
  \<open>applyContextSettings\<close>. None of them is in the files under verification, so each
  is a field of the record below and every theorem holds for all of them.

  \<open>'x\<close> is the type of contexts, \<open>'q\<close> of requests, \<open>'r\<close> of responses and \<open>'w\<close> of the
  world the calls act on: the server behind the connection and the caller's result
  objects. \<open>Do\<close> sends a request, so it takes the world and returns the new one;
  \<open>ParseBody\<close> into a sink writes the caller's object, so it does too. \<open>ParseBody_meta\<close>
  is \<open>ParseBody\<close> into the local variable \<open>meta\<close>: it takes the variable's value and
  returns the value after decoding together with the error.
\<close>

record ('x, 'q, 'r, 'w) edgeCollection =
  validateKey :: "string \<Rightarrow> error option"
  pathEscape :: "string \<Rightarrow> string"
  path_Join :: "string \<Rightarrow> string \<Rightarrow> string"
  relPath :: string
  NewRequest :: "string \<Rightarrow> string \<Rightarrow> error + 'q"
  SetBody :: "'q \<Rightarrow> rvalue \<Rightarrow> error + 'q"
  applyContextSettings :: "'x \<Rightarrow> 'q \<Rightarrow> contextSettings \<times> 'q"
  Do :: "'x \<Rightarrow> 'q \<Rightarrow> 'w \<Rightarrow> (error + 'r) \<times> 'w"
  StatusCode :: "'r \<Rightarrow> int"
  ParseBody_meta :: "'r \<Rightarrow> string \<Rightarrow> DocumentMeta \<Rightarrow> DocumentMeta \<times> error option"
  ParseBody :: "'r \<Rightarrow> string \<Rightarrow> sink \<Rightarrow> 'w \<Rightarrow> error option \<times> 'w"

subsection \<open>Single-document operations\<close>

definition ReadDocument ::
  "('x, 'q, 'r, 'w) edgeCollection \<Rightarrow> 'x \<Rightarrow> string \<Rightarrow> sink option \<Rightarrow> 'w
     \<Rightarrow> (DocumentMeta \<times> error option) \<times> 'w" where
  "ReadDocument c ctx key result w =
     (case validateKey c key of
        Some err \<Rightarrow> ((DocumentMeta_zero, Some (WithStack err)), w)
      | None \<Rightarrow>
     let escapedKey = pathEscape c key in
     (case NewRequest c ''GET'' (path_Join c (relPath c) escapedKey) of
        Inl err \<Rightarrow> ((DocumentMeta_zero, Some (WithStack err)), w)
      | Inr req \<Rightarrow>
     (case Do c ctx req w of
        (Inl err, w1) \<Rightarrow> ((DocumentMeta_zero, Some (WithStack err)), w1)
      | (Inr resp, w1) \<Rightarrow>
     (case CheckStatus (StatusCode c resp) [200] of
        Some err \<Rightarrow> ((DocumentMeta_zero, Some (WithStack err)), w1)
      | None \<Rightarrow>
     (case ParseBody_meta c resp ''edge'' DocumentMeta_zero of
        (meta, Some err) \<Rightarrow> ((DocumentMeta_zero, Some (WithStack err)), w1)
      | (meta, None) \<Rightarrow>
     (case result of
        None \<Rightarrow> ((meta, None), w1)
      | Some snk \<Rightarrow>
          (case ParseBody c resp ''edge'' snk w1 of
             (Some err, w2) \<Rightarrow> ((meta, Some (WithStack err)), w2)
           | (None, w2) \<Rightarrow> ((meta, None), w2))))))))"

definition createDocument ::
  "('x, 'q, 'r, 'w) edgeCollection \<Rightarrow> 'x \<Rightarrow> rvalue option \<Rightarrow> 'w
     \<Rightarrow> (DocumentMeta \<times> contextSettings \<times> error option) \<times> 'w" where
  "createDocument c ctx document w =
     (case document of
        None \<Rightarrow> ((DocumentMeta_zero, contextSettings_zero,
                   Some (WithStack (InvalidArgumentError ''document nil''))), w)
      | Some doc \<Rightarrow>
     (case NewRequest c ''POST'' (relPath c) of
        Inl err \<Rightarrow> ((DocumentMeta_zero, contextSettings_zero, Some (WithStack err)), w)
      | Inr req0 \<Rightarrow>
     (case SetBody c req0 doc of
        Inl err \<Rightarrow> ((DocumentMeta_zero, contextSettings_zero, Some (WithStack err)), w)
      | Inr req1 \<Rightarrow>
     (case applyContextSettings c ctx req1 of (cs, req) \<Rightarrow>
     (case Do c ctx req w of
        (Inl err, w1) \<Rightarrow> ((DocumentMeta_zero, cs, Some (WithStack err)), w1)
      | (Inr resp, w1) \<Rightarrow>
     (case CheckStatus (StatusCode c resp) [okStatus cs 201 202] of
        Some err \<Rightarrow> ((DocumentMeta_zero, cs, Some (WithStack err)), w1)
      | None \<Rightarrow>
     if Silent cs then ((DocumentMeta_zero, cs, None), w1)
     else
     (case ParseBody_meta c resp ''edge'' DocumentMeta_zero of
        (meta, Some err) \<Rightarrow> ((DocumentMeta_zero, cs, Some (WithStack err)), w1)
      | (meta, None) \<Rightarrow>
     (case ReturnNew cs of
        None \<Rightarrow> ((meta, cs, None), w1)
      | Some snk \<Rightarrow>
          (case ParseBody c resp ''new'' snk w1 of
             (Some err, w2) \<Rightarrow> ((meta, cs, Some (WithStack err)), w2)
           | (None, w2) \<Rightarrow> ((meta, cs, None), w2))))))))))"

definition CreateDocument ::
  "('x, 'q, 'r, 'w) edgeCollection \<Rightarrow> 'x \<Rightarrow> rvalue option \<Rightarrow> 'w
     \<Rightarrow> (DocumentMeta \<times> error option) \<times> 'w" where
  "CreateDocument c ctx document w =
     (case createDocument c ctx document w of
        ((meta, cs, Some err), w1) \<Rightarrow> ((DocumentMeta_zero, Some (WithStack err)), w1)
      | ((meta, cs, None), w1) \<Rightarrow> ((meta, None), w1))"

definition updateDocument ::
  "('x, 'q, 'r, 'w) edgeCollection \<Rightarrow> 'x \<Rightarrow> string \<Rightarrow> rvalue option \<Rightarrow> 'w
     \<Rightarrow> (DocumentMeta \<times> contextSettings \<times> error option) \<times> 'w" where
  "updateDocument c ctx key update w =
     (case validateKey c key of
        Some err \<Rightarrow> ((DocumentMeta_zero, contextSettings_zero, Some (WithStack err)), w)
      | None \<Rightarrow>
     (case update of
        None \<Rightarrow> ((DocumentMeta_zero, contextSettings_zero,
                   Some (WithStack (InvalidArgumentError ''update nil''))), w)
      | Some upd \<Rightarrow>
     let escapedKey = pathEscape c key in
     (case NewRequest c ''PATCH'' (path_Join c (relPath c) escapedKey) of
        Inl err \<Rightarrow> ((DocumentMeta_zero, contextSettings_zero, Some (WithStack err)), w)
      | Inr req0 \<Rightarrow>
     (case SetBody c req0 upd of
        Inl err \<Rightarrow> ((DocumentMeta_zero, contextSettings_zero, Some (WithStack err)), w)
      | Inr req1 \<Rightarrow>
     (case applyContextSettings c ctx req1 of (cs, req) \<Rightarrow>
     (case Do c ctx req w of
        (Inl err, w1) \<Rightarrow> ((DocumentMeta_zero, cs, Some (WithStack err)), w1)
      | (Inr resp, w1) \<Rightarrow>
     (case CheckStatus (StatusCode c resp) [200, 201, 202] of
        Some err \<Rightarrow> ((DocumentMeta_zero, cs, Some (WithStack err)), w1)
      | None \<Rightarrow>
     if Silent cs then ((DocumentMeta_zero, cs, None), w1)
     else
     (case ParseBody_meta c resp ''edge'' DocumentMeta_zero of
        (meta, Some err) \<Rightarrow> ((DocumentMeta_zero, cs, Some (WithStack err)), w1)
      | (meta, None) \<Rightarrow>
     (case (case ReturnOld cs of
              None \<Rightarrow> (None, w1)
            | Some snk \<Rightarrow> ParseBody c resp ''old'' snk w1) of
        (Some err, w2) \<Rightarrow> ((meta, cs, Some (WithStack err)), w2)
      | (None, w2) \<Rightarrow>
     (case ReturnNew cs of
        None \<Rightarrow> ((meta, cs, None), w2)
      | Some snk \<Rightarrow>
          (case ParseBody c resp ''new'' snk w2 of
             (Some err, w3) \<Rightarrow> ((meta, cs, Some (WithStack err)), w3)
           | (None, w3) \<Rightarrow> ((meta, cs, None), w3))))))))))))"

definition UpdateDocument ::
  "('x, 'q, 'r, 'w) edgeCollection \<Rightarrow> 'x \<Rightarrow> string \<Rightarrow> rvalue option \<Rightarrow> 'w
     \<Rightarrow> (DocumentMeta \<times> error option) \<times> 'w" where
  "UpdateDocument c ctx key update w =
     (case updateDocument c ctx key update w of
        ((meta, cs, Some err), w1) \<Rightarrow> ((DocumentMeta_zero, Some (WithStack err)), w1)
      | ((meta, cs, None), w1) \<Rightarrow> ((meta, None), w1))"

definition replaceDocument ::
  "('x, 'q, 'r, 'w) edgeCollection \<Rightarrow> 'x \<Rightarrow> string \<Rightarrow> rvalue option \<Rightarrow> 'w
     \<Rightarrow> (DocumentMeta \<times> contextSettings \<times> error option) \<times> 'w" where
  "replaceDocument c ctx key document w =
     (case validateKey c key of
        Some err \<Rightarrow> ((DocumentMeta_zero, contextSettings_zero, Some (WithStack err)), w)
      | None \<Rightarrow>
     (case document of
        None \<Rightarrow> ((DocumentMeta_zero, contextSettings_zero,
                   Some (WithStack (InvalidArgumentError ''document nil''))), w)
      | Some doc \<Rightarrow>
     let escapedKey = pathEscape c key in
     (case NewRequest c ''PUT'' (path_Join c (relPath c) escapedKey) of
        Inl err \<Rightarrow> ((DocumentMeta_zero, contextSettings_zero, Some (WithStack err)), w)
      | Inr req0 \<Rightarrow>
     (case SetBody c req0 doc of
        Inl err \<Rightarrow> ((DocumentMeta_zero, contextSettings_zero, Some (WithStack err)), w)
      | Inr req1 \<Rightarrow>
     (case applyContextSettings c ctx req1 of (cs, req) \<Rightarrow>
     (case Do c ctx req w of
        (Inl err, w1) \<Rightarrow> ((DocumentMeta_zero, cs, Some (WithStack err)), w1)
      | (Inr resp, w1) \<Rightarrow>
     (case CheckStatus (StatusCode c resp) [okStatus cs 201 202] of
        Some err \<Rightarrow> ((DocumentMeta_zero, cs, Some (WithStack err)), w1)
      | None \<Rightarrow>
     if Silent cs then ((DocumentMeta_zero, cs, None), w1)
     else
     (case ParseBody_meta c resp ''edge'' DocumentMeta_zero of
        (meta, Some err) \<Rightarrow> ((DocumentMeta_zero, cs, Some (WithStack err)), w1)
      | (meta, None) \<Rightarrow>
     (case (case ReturnOld cs of
              None \<Rightarrow> (None, w1)
            | Some snk \<Rightarrow> ParseBody c resp ''old'' snk w1) of
        (Some err, w2) \<Rightarrow> ((meta, cs, Some (WithStack err)), w2)
      | (None, w2) \<Rightarrow>
     (case ReturnNew cs of
        None \<Rightarrow> ((meta, cs, None), w2)
      | Some snk \<Rightarrow>
          (case ParseBody c resp ''new'' snk w2 of
             (Some err, w3) \<Rightarrow> ((meta, cs, Some (WithStack err)), w3)
           | (None, w3) \<Rightarrow> ((meta, cs, None), w3))))))))))))"

definition ReplaceDocument ::
  "('x, 'q, 'r, 'w) edgeCollection \<Rightarrow> 'x \<Rightarrow> string \<Rightarrow> rvalue option \<Rightarrow> 'w
     \<Rightarrow> (DocumentMeta \<times> error option) \<times> 'w" where
  "ReplaceDocument c ctx key document w =
     (case replaceDocument c ctx key document w of
        ((meta, cs, Some err), w1) \<Rightarrow> ((DocumentMeta_zero, Some (WithStack err)), w1)
      | ((meta, cs, None), w1) \<Rightarrow> ((meta, None), w1))"

definition removeDocument ::
  "('x, 'q, 'r, 'w) edgeCollection \<Rightarrow> 'x \<Rightarrow> string \<Rightarrow> 'w
     \<Rightarrow> (DocumentMeta \<times> contextSettings \<times> error option) \<times> 'w" where
  "removeDocument c ctx key w =
     (case validateKey c key of
        Some err \<Rightarrow> ((DocumentMeta_zero, contextSettings_zero, Some (WithStack err)), w)
      | None \<Rightarrow>
     let escapedKey = pathEscape c key in
     (case NewRequest c ''DELETE'' (path_Join c (relPath c) escapedKey) of
        Inl err \<Rightarrow> ((DocumentMeta_zero, contextSettings_zero, Some (WithStack err)), w)
      | Inr req0 \<Rightarrow>
     (case applyContextSettings c ctx req0 of (cs, req) \<Rightarrow>
     (case Do c ctx req w of
        (Inl err, w1) \<Rightarrow> ((DocumentMeta_zero, cs, Some (WithStack err)), w1)
      | (Inr resp, w1) \<Rightarrow>
     (case CheckStatus (StatusCode c resp) [okStatus cs 200 202] of
        Some err \<Rightarrow> ((DocumentMeta_zero, cs, Some (WithStack err)), w1)
      | None \<Rightarrow>
     if Silent cs then ((DocumentMeta_zero, cs, None), w1)
     else
     (case ParseBody_meta c resp ''edge'' DocumentMeta_zero of
        (meta, Some err) \<Rightarrow> ((DocumentMeta_zero, cs, Some (WithStack err)), w1)
      | (meta, None) \<Rightarrow>
     (case ReturnOld cs of
        None \<Rightarrow> ((meta, cs, None), w1)
      | Some snk \<Rightarrow>
          (case ParseBody c resp ''old'' snk w1 of
             (Some err, w2) \<Rightarrow> ((meta, cs, Some (WithStack err)), w2)
           | (None, w2) \<Rightarrow> ((meta, cs, None), w2)))))))))"

definition RemoveDocument ::
  "('x, 'q, 'r, 'w) edgeCollection \<Rightarrow> 'x \<Rightarrow> string \<Rightarrow> 'w
     \<Rightarrow> (DocumentMeta \<times> error option) \<times> 'w" where
  "RemoveDocument c ctx key w =
     (case removeDocument c ctx key w of
        ((meta, cs, Some err), w1) \<Rightarrow> ((DocumentMeta_zero, Some (WithStack err)), w1)
      | ((meta, cs, None), w1) \<Rightarrow> ((meta, None), w1))"

subsection \<open>Key extraction\<close>

definition getKeyFromDocument :: "rvalue \<Rightarrow> (string \<times> error option) res" where
  "getKeyFromDocument doc0 =
     (case IsNil doc0 of
        Panicked p \<Rightarrow> Panicked p
      | Returned True \<Rightarrow>
          Returned ('''', Some (WithStack (InvalidArgumentError ''Document is nil'')))
      | Returned False \<Rightarrow>
     (case (if Kind doc0 = reflect_Ptr then Elem doc0 else Returned doc0) of
        Panicked p \<Rightarrow> Panicked p
      | Returned doc \<Rightarrow>
     (case doc of
        StructV n fs \<Rightarrow> findKeyField fs
      | MapV t m \<Rightarrow>
          (case MapIndex doc ''_key'' of
             Panicked p \<Rightarrow> Panicked p
           | Returned keyVal \<Rightarrow>
               (case IsNil keyVal of
                  Panicked p \<Rightarrow> Panicked p
                | Returned True \<Rightarrow>
                    Returned ('''', Some (WithStack (InvalidArgumentError
                                ''Document contains no '_key' entry'')))
                | Returned False \<Rightarrow> Returned (Value_String keyVal, None)))
      | _ \<Rightarrow>
          Returned ('''', Some (WithStack (InvalidArgumentError
                      (''Document must be struct or map. Got '' @ Kind_String (Kind doc))))))))"

subsection \<open>Batch operations\<close>

text \<open>
  A batch call returns \<open>(metas, errs, err)\<close>; a nil slice is \<open>None\<close>. The loops write
  \<open>metas[i]\<close> and \<open>errs[i]\<close> by index into slices made beforehand, so they are modelled
  with the index \<open>i\<close> and list update; each is a \<open>function\<close> whose measure is the
  number of items left.
\<close>

type_synonym batch_result =
  "DocumentMeta list option \<times> error option list option \<times> error option"

fun range_validateKey :: "(string \<Rightarrow> error option) \<Rightarrow> string list \<Rightarrow> error option" where
  "range_validateKey vk [] = None"
| "range_validateKey vk (key # keys) =
     (case vk key of Some err \<Rightarrow> Some err | None \<Rightarrow> range_validateKey vk keys)"



function UpdateDocuments_loop ::
  "('x, 'q, 'r, 'w) edgeCollection \<Rightarrow> 'x \<Rightarrow> string list option \<Rightarrow> rvalue \<Rightarrow> nat \<Rightarrow> nat
     \<Rightarrow> DocumentMeta list \<Rightarrow> error option list \<Rightarrow> bool \<Rightarrow> 'w
     \<Rightarrow> (DocumentMeta list \<times> error option list \<times> bool) res \<times> 'w" where
  "UpdateDocuments_loop c ctx keys updatesVal updateCount i metas errs silent w =
     (if i < updateCount then
        (case Value_Index updatesVal i of
           Panicked p \<Rightarrow> (Panicked p, w)
         | Returned update \<Rightarrow>
        (case (case keys of
                 Some ks \<Rightarrow>
                   if i < length ks then Returned (ks ! i, None)
                   else Panicked ''runtime error: index out of range''
               | None \<Rightarrow> getKeyFromDocument update) of
           Panicked p \<Rightarrow> (Panicked p, w)
         | Returned (key, Some err) \<Rightarrow>
             UpdateDocuments_loop c ctx keys updatesVal updateCount (Suc i)
               metas (errs[i := Some err]) silent w
         | Returned (key, None) \<Rightarrow>
        (case updateDocument c ctx key (Value_Interface update) w of
           ((meta, cs, err), w1) \<Rightarrow>
             if Silent cs
             then UpdateDocuments_loop c ctx keys updatesVal updateCount (Suc i)
                    metas errs True w1
             else UpdateDocuments_loop c ctx keys updatesVal updateCount (Suc i)
                    (metas[i := meta]) (errs[i := err]) silent w1)))
      else (Returned (metas, errs, silent), w))"
  by pat_completeness auto
termination
  by (relation "measure (\<lambda>(c, ctx, keys, updatesVal, updateCount, i, rest). updateCount - i)")
    auto

definition UpdateDocuments ::
  "('x, 'q, 'r, 'w) edgeCollection \<Rightarrow> 'x \<Rightarrow> string list option \<Rightarrow> rvalue option \<Rightarrow> 'w
     \<Rightarrow> batch_result res \<times> 'w" where
  "UpdateDocuments c ctx keys updates w =
     (let updatesVal = ValueOf updates in
      if Kind updatesVal \<noteq> reflect_Array \<and> Kind updatesVal \<noteq> reflect_Slice
      then (Returned (None, None, Some (WithStack (InvalidArgumentError
              (''updates data must be of kind Array, got ''
                 @ Kind_String (Kind updatesVal))))), w)
      else
        let updateCount = Value_Len updatesVal in
        (case (case keys of
                 None \<Rightarrow> None
               | Some ks \<Rightarrow>
                   if length ks \<noteq> updateCount
                   then Some (WithStack (InvalidArgumentError
                          (''expected '' @ fmt_d updateCount @ '' keys, got ''
                             @ fmt_s_int (length ks))))
                   else (case range_validateKey (validateKey c) ks of
                           Some err \<Rightarrow> Some (WithStack err)
                         | None \<Rightarrow> None)) of
           Some err \<Rightarrow> (Returned (None, None, Some err), w)
         | None \<Rightarrow>
        let metas = replicate updateCount DocumentMeta_zero;
            errs = replicate updateCount None
        in (case UpdateDocuments_loop c ctx keys updatesVal updateCount 0 metas errs False w of
              (Panicked p, w1) \<Rightarrow> (Panicked p, w1)
            | (Returned (metas1, errs1, silent), w1) \<Rightarrow>
                if silent then (Returned (None, None, None), w1)
                else (Returned (Some metas1, Some errs1, None), w1))))"

function ReplaceDocuments_loop ::
  "('x, 'q, 'r, 'w) edgeCollection \<Rightarrow> 'x \<Rightarrow> string list option \<Rightarrow> rvalue \<Rightarrow> nat \<Rightarrow> nat
     \<Rightarrow> DocumentMeta list \<Rightarrow> error option list \<Rightarrow> bool \<Rightarrow> 'w
     \<Rightarrow> (DocumentMeta list \<times> error option list \<times> bool) res \<times> 'w" where
  "ReplaceDocuments_loop c ctx keys documentsVal documentCount i metas errs silent w =
     (if i < documentCount then
        (case Value_Index documentsVal i of
           Panicked p \<Rightarrow> (Panicked p, w)
         | Returned doc \<Rightarrow>
        (case (case keys of
                 Some ks \<Rightarrow>
                   if i < length ks then Returned (ks ! i, None)
                   else Panicked ''runtime error: index out of range''
               | None \<Rightarrow> getKeyFromDocument doc) of
           Panicked p \<Rightarrow> (Panicked p, w)
         | Returned (key, Some err) \<Rightarrow>
             ReplaceDocuments_loop c ctx keys documentsVal documentCount (Suc i)
               metas (errs[i := Some err]) silent w
         | Returned (key, None) \<Rightarrow>
        (case replaceDocument c ctx key (Value_Interface doc) w of
           ((meta, cs, err), w1) \<Rightarrow>
             if Silent cs
             then ReplaceDocuments_loop c ctx keys documentsVal documentCount (Suc i)
                    metas errs True w1
             else ReplaceDocuments_loop c ctx keys documentsVal documentCount (Suc i)
                    (metas[i := meta]) (errs[i := err]) silent w1)))
      else (Returned (metas, errs, silent), w))"
  by pat_completeness auto
termination
  by (relation "measure (\<lambda>(c, ctx, keys, documentsVal, documentCount, i, rest).
        documentCount - i)")
    auto

definition ReplaceDocuments ::
  "('x, 'q, 'r, 'w) edgeCollection \<Rightarrow> 'x \<Rightarrow> string list option \<Rightarrow> rvalue option \<Rightarrow> 'w
     \<Rightarrow> batch_result res \<times> 'w" where
  "ReplaceDocuments c ctx keys documents w =
     (let documentsVal = ValueOf documents in
      if Kind documentsVal \<noteq> reflect_Array \<and> Kind documentsVal \<noteq> reflect_Slice
      then (Returned (None, None, Some (WithStack (InvalidArgumentError
              (''documents data must be of kind Array, got ''
                 @ Kind_String (Kind documentsVal))))), w)
      else
        let documentCount = Value_Len documentsVal in
        (case (case keys of
                 None \<Rightarrow> None
               | Some ks \<Rightarrow>
                   if length ks \<noteq> documentCount
                   then Some (WithStack (InvalidArgumentError
                          (''expected '' @ fmt_d documentCount @ '' keys, got ''
                             @ fmt_s_int (length ks))))
                   else (case range_validateKey (validateKey c) ks of
                           Some err \<Rightarrow> Some (WithStack err)
                         | None \<Rightarrow> None)) of
           Some err \<Rightarrow> (Returned (None, None, Some err), w)
         | None \<Rightarrow>
        let metas = replicate documentCount DocumentMeta_zero;
            errs = replicate documentCount None
        in (case ReplaceDocuments_loop c ctx keys documentsVal documentCount 0 metas errs
                   False w of
              (Panicked p, w1) \<Rightarrow> (Panicked p, w1)
            | (Returned (metas1, errs1, silent), w1) \<Rightarrow>
                if silent then (Returned (None, None, None), w1)
                else (Returned (Some metas1, Some errs1, None), w1))))"


text \<open>
  A hash index on \<open>books/title\<close>, unique and not sparse, as the server describes it, and
  two collections: one with a database and a connection, one whose references are nil.
\<close>

definition title_index_data :: indexData where
  "title_index_data =
     \<lparr>id_of = ''books/title'', typestr = ''hash'', fields_of = [''title''],
      unique = Some True, deduplicate = None, sparse = Some False, geoJSON = None,
      minLength = 0\<rparr>"

definition books_collection :: "(nat, nat) collection" where
  "books_collection = \<lparr>col_db = Some 1, col_conn = Some 2\<rparr>"

definition detached_collection :: "(nat, nat) collection" where
  "detached_collection = \<lparr>col_db = None, col_conn = None\<rparr>"


section \<open>A stub collection\<close>

text \<open>
  A collection whose connection answers from the request alone and keeps the list of
  the requests it was sent, in order: the world is that list. A context is the
  settings it configures. Requests are \<open>(method, path, body)\<close>. A request for the key
  \<open>missing\<close> is answered 404, one for \<open>garbled\<close> with a primary envelope that only
  partly decodes, one for \<open>unreachable\<close> fails in transport, and any other succeeds with
  the status the verb expects. No response carries an \<open>old\<close> or \<open>new\<close> envelope. Keys
  are valid when they are non-empty and have no \<open>/\<close>.
\<close>

type_synonym stub_request = "string \<times> string \<times> rvalue option"

record stub_response =
  stub_status :: int
  stub_edge :: "DocumentMeta \<times> error option"
  stub_envelopes :: "string list"

definition stub_key :: "stub_request \<Rightarrow> string" where
  "stub_key req =
     (case req of (m, p, body) \<Rightarrow>
        if m = ''POST'' then
          (case body of
             Some d \<Rightarrow>
               (case getKeyFromDocument d of
                  Returned (k, None) \<Rightarrow> k
                | _ \<Rightarrow> ''generated'')
           | None \<Rightarrow> ''generated'')
        else drop 6 p)"

definition stub_ok :: "contextSettings \<Rightarrow> string \<Rightarrow> int" where
  "stub_ok ctx m =
     (if m = ''GET'' then 200
      else if WaitForSync ctx then (if m = ''DELETE'' then 200 else 201)
      else 202)"

definition stub_Do ::
  "contextSettings \<Rightarrow> stub_request \<Rightarrow> stub_request list
     \<Rightarrow> (error + stub_response) \<times> stub_request list" where
  "stub_Do ctx req sent =
     (let k = stub_key req in
      if k = ''unreachable'' then (Inl (TransportError ''connection refused''), sent @ [req])
      else if k = ''missing'' then
        (Inr \<lparr>stub_status = 404,
              stub_edge = (DocumentMeta_zero, Some (DecodeError ''edge'')),
              stub_envelopes = []\<rparr>, sent @ [req])
      else if k = ''garbled'' then
        (Inr \<lparr>stub_status = stub_ok ctx (fst req),
              stub_edge = (\<lparr>Key = k, ID = [], Rev = []\<rparr>, Some (DecodeError ''edge'')),
              stub_envelopes = []\<rparr>, sent @ [req])
      else
        (Inr \<lparr>stub_status = stub_ok ctx (fst req),
              stub_edge = (\<lparr>Key = k, ID = ''edges/'' @ k, Rev = ''1''\<rparr>, None),
              stub_envelopes = []\<rparr>, sent @ [req]))"

definition stub ::
  "(contextSettings, stub_request, stub_response, stub_request list) edgeCollection" where
  "stub =
     \<lparr>validateKey = (\<lambda>key. if key = [] \<or> CHR ''/'' \<in> set key
                              then Some (InvalidKeyError key) else None),
      pathEscape = (\<lambda>key. key),
      path_Join = (\<lambda>a b. a @ ''/'' @ b),
      relPath = ''edges'',
      NewRequest = (\<lambda>m p. Inr (m, p, None)),
      SetBody = (\<lambda>req body. Inr (fst req, fst (snd req), Some body)),
      applyContextSettings = (\<lambda>ctx req. (ctx, req)),
      Do = stub_Do,
      StatusCode = stub_status,
      ParseBody_meta = (\<lambda>resp field meta.
         if field = ''edge'' then stub_edge resp else (meta, Some (DecodeError field))),
      ParseBody = (\<lambda>resp field snk sent.
         if field \<in> set (stub_envelopes resp) then (None, sent)
         else (Some (DecodeError field), sent))\<rparr>"

text \<open>
  Sample documents: a \<open>*Book\<close> with the given key, a nil \<open>*Book\<close>, and a
  \<open>map[string]interface{}\<close> with a name and no \<open>_key\<close>.
\<close>

definition book :: "string \<Rightarrow> rvalue" where
  "book k =
     PtrV (T_struct ''Book'')
       (Some (StructV ''Book'' [(''_key,omitempty'', StringV k), (''title'', StringV ''t'')]))"

definition nil_book :: rvalue where
  "nil_book = PtrV (T_struct ''Book'') None"

definition books :: "rvalue list \<Rightarrow> rvalue option" where
  "books ds = Some (SliceV (T_ptr (T_struct ''Book'')) (Some ds))"

definition keyless_map :: rvalue where
  "keyless_map = MapV T_interface (Some [(''name'', InterfaceV (Some (StringV ''Ann'')))])"

definition with_ReturnNew :: contextSettings where
  "with_ReturnNew = contextSettings_zero\<lparr>ReturnNew := Some 1\<rparr>"


declare UpdateDocuments_loop.simps [simp del]
declare ReplaceDocuments_loop.simps [simp del]
section \<open>Properties of the index implementation\<close>

subsection \<open>Splitting at a separator\<close>

lemma strings_Split_nonempty: "strings_Split s c \<noteq> []"
  by (induction s) (auto split: list.splits)

lemma strings_Split_no_sep: "c \<notin> set s \<Longrightarrow> strings_Split s c = [s]"
  by (induction s) auto

lemma strings_Split_length: "length (strings_Split s c) = Suc (count_list s c)"
  by (induction s) (auto split: list.splits)

lemma strings_Split_single: "length (strings_Split s c) = Suc 0 \<Longrightarrow> c \<notin> set s"
  by (simp add: strings_Split_length count_list_0_iff)

lemma strings_Split_two:
  "length (strings_Split s c) = 2 \<Longrightarrow>
     \<exists>a b. s = a @ c # b \<and> c \<notin> set a \<and> c \<notin> set b \<and> strings_Split s c = [a, b]"
proof (induction s)
  case Nil
  then show ?case by simp
next
  case (Cons x xs)
  show ?case
  proof (cases "x = c")
    case True
    with Cons.prems have "length (strings_Split xs c) = Suc 0" by simp
    then have "c \<notin> set xs" by (rule strings_Split_single)
    then have "strings_Split xs c = [xs]" by (rule strings_Split_no_sep)
    with True \<open>c \<notin> set xs\<close> show ?thesis
      by (intro exI [of _ "[]"] exI [of _ xs]) simp
  next
    case False
    with Cons.prems have "length (strings_Split xs c) = 2"
      by (auto split: list.splits)
    from Cons.IH [OF this] obtain a b where
      ab: "xs = a @ c # b" "c \<notin> set a" "c \<notin> set b" "strings_Split xs c = [a, b]"
      by blast
    with False show ?thesis
      by (intro exI [of _ "x # a"] exI [of _ b]) simp
  qed
qed

subsection \<open>indexStringToType\<close>

lemma indexStringToType_ok:
  "indexStringToType s = (ty, None) \<Longrightarrow>
     ty \<in> {PrimaryIndex, FullTextIndex, HashIndex, SkipListIndex, PersistentIndex, GeoIndex}"
  by (auto simp: indexStringToType_def split: if_splits)

text \<open>
  C10. \<open>indexStringToType\<close> maps each of the six type names to its \<open>IndexType\<close>
  constant, maps \<open>geo1\<close> and \<open>geo2\<close> to \<open>GeoIndex\<close> as well, and returns the empty
  type together with an \<open>InvalidArgumentError\<close> for every other string.
\<close>

theorem indexStringToType_table:
  "indexStringToType ''primary'' = (PrimaryIndex, None) \<and>
   indexStringToType ''fulltext'' = (FullTextIndex, None) \<and>
   indexStringToType ''hash'' = (HashIndex, None) \<and>
   indexStringToType ''skiplist'' = (SkipListIndex, None) \<and>
   indexStringToType ''persistent'' = (PersistentIndex, None) \<and>
   indexStringToType ''geo'' = (GeoIndex, None) \<and>
   indexStringToType ''geo1'' = (GeoIndex, None) \<and>
   indexStringToType ''geo2'' = (GeoIndex, None) \<and>
   (\<forall>s. s \<notin> {''primary'', ''fulltext'', ''hash'', ''skiplist'', ''persistent'', ''geo'',
               ''geo1'', ''geo2''} \<longrightarrow>
        indexStringToType s =
          ('''', Some (WithStack (InvalidArgumentError ''unknown index type''))))"
  by (simp add: indexStringToType_def PrimaryIndex_def FullTextIndex_def HashIndex_def
      SkipListIndex_def PersistentIndex_def GeoIndex_def)

theorem indexStringToType_table_witness:
  "''btree'' \<notin> {''primary'', ''fulltext'', ''hash'', ''skiplist'', ''persistent'', ''geo'',
                 ''geo1'', ''geo2''} \<and>
   indexStringToType ''btree'' =
     ('''', Some (WithStack (InvalidArgumentError ''unknown index type'')))"
proof -
  have h: "''btree'' \<notin> {''primary'', ''fulltext'', ''hash'', ''skiplist'', ''persistent'',
                          ''geo'', ''geo1'', ''geo2''}"
    by simp
  have others: "\<forall>s. s \<notin> {''primary'', ''fulltext'', ''hash'', ''skiplist'', ''persistent'',
                          ''geo'', ''geo1'', ''geo2''} \<longrightarrow>
      indexStringToType s =
        ('''', Some (WithStack (InvalidArgumentError ''unknown index type'')))"
    using indexStringToType_table by (elim conjE)
  from others have "''btree'' \<notin> {''primary'', ''fulltext'', ''hash'', ''skiplist'',
        ''persistent'', ''geo'', ''geo1'', ''geo2''} \<longrightarrow>
      indexStringToType ''btree'' =
        ('''', Some (WithStack (InvalidArgumentError ''unknown index type'')))"
    by (rule spec)
  from this h have "indexStringToType ''btree'' =
      ('''', Some (WithStack (InvalidArgumentError ''unknown index type'')))"
    by (rule mp)
  with h show ?thesis by (rule conjI)
qed

subsection \<open>newIndex and Name\<close>

text \<open>
  C9, as the code has it. An index that \<open>newIndex\<close> returns has a non-empty id that
  splits at \<open>/\<close> into exactly two parts, its type is one of the six constants, and its
  \<open>col\<close> is the non-nil collection it was given. Its \<open>db\<close> and \<open>conn\<close> are that
  collection's \<open>db\<close> and \<open>conn\<close>, whatever they are. \<open>Name\<close> returns the part of the id
  after the \<open>/\<close> and does not panic.
\<close>

theorem newIndex_invariant:
  "newIndex dat cl = (Some idx, None) \<Longrightarrow>
     id_of (data idx) \<noteq> '''' \<and>
     length (strings_Split (id_of (data idx)) CHR ''/'') = 2 \<and>
     indexType idx \<in> {PrimaryIndex, FullTextIndex, HashIndex, SkipListIndex,
                       PersistentIndex, GeoIndex} \<and>
     (\<exists>c. cl = Some c \<and> col idx = Some c \<and> db idx = col_db c \<and> conn idx = col_conn c) \<and>
     (\<exists>a b. id_of (data idx) = a @ CHR ''/'' # b \<and> CHR ''/'' \<notin> set a \<and>
            CHR ''/'' \<notin> set b \<and> Name idx = Returned b)"
proof -
  assume ok: "newIndex dat cl = (Some idx, None)"
  from ok have ne: "id_of dat \<noteq> ''''"
    by (auto simp: newIndex_def split: if_splits)
  from ok have len: "length (strings_Split (id_of dat) CHR ''/'') = 2"
    by (auto simp: newIndex_def Let_def split: if_splits)
  from ok ne len obtain c where c: "cl = Some c"
    by (cases cl) (auto simp: newIndex_def Let_def)
  from ok ne len c obtain ty where ty: "indexStringToType (typestr dat) = (ty, None)"
    and idx: "idx = \<lparr>data = dat, indexType = ty, db = col_db c, col = Some c,
                     conn = col_conn c\<rparr>"
    by (auto simp: newIndex_def Let_def split: prod.splits option.splits)
  from strings_Split_two [OF len] obtain a b where
    ab: "id_of dat = a @ CHR ''/'' # b" "CHR ''/'' \<notin> set a" "CHR ''/'' \<notin> set b"
      "strings_Split (id_of dat) CHR ''/'' = [a, b]"
    by blast
  have nm: "Name idx = Returned b"
    using ab(4) by (simp add: Name_def idx)
  show ?thesis
    using ne len c idx indexStringToType_ok [OF ty] ab(1-3) nm by auto
qed

lemma newIndex_books:
  "newIndex title_index_data (Some books_collection) =
     (Some \<lparr>data = title_index_data, indexType = HashIndex, db = Some 1,
            col = Some books_collection, conn = Some 2\<rparr>, None)"
  by (simp add: newIndex_def title_index_data_def books_collection_def
      indexStringToType_def HashIndex_def FullTextIndex_def)

theorem newIndex_invariant_witness:
  "newIndex title_index_data (Some books_collection) =
     (Some \<lparr>data = title_index_data, indexType = HashIndex, db = Some 1,
            col = Some books_collection, conn = Some 2\<rparr>, None) \<and>
   Name \<lparr>data = title_index_data, indexType = HashIndex, db = Some (1::nat),
         col = Some books_collection, conn = Some (2::nat)\<rparr> = Returned ''title''"
proof -
  let ?idx = "\<lparr>data = title_index_data, indexType = HashIndex, db = Some (1::nat),
               col = Some books_collection, conn = Some (2::nat)\<rparr>"
  from newIndex_invariant [OF newIndex_books] obtain a b where
    ab: "id_of (data ?idx) = a @ CHR ''/'' # b" "CHR ''/'' \<notin> set a"
    and nm: "Name ?idx = Returned b"
    by blast
  from ab have "''books/title'' = a @ CHR ''/'' # b"
    by (simp add: title_index_data_def)
  with ab(2) have "b = ''title''"
    by (auto simp: append_eq_Cons_conv Cons_eq_append_conv)
  with nm newIndex_books show ?thesis by simp
qed

text \<open>
  The claim as written also promises non-nil \<open>db\<close> and \<open>conn\<close>. \<open>newIndex\<close> checks
  \<open>col\<close> only: given a collection whose \<open>db\<close> and \<open>conn\<close> are nil it succeeds, and the
  index it returns has nil \<open>db\<close> and \<open>conn\<close>.
\<close>

theorem newIndex_nil_db_counterexample:
  "(case newIndex title_index_data (Some detached_collection) of
      (Some idx, None) \<Rightarrow> col idx \<noteq> None \<and> db idx = None \<and> conn idx = None
    | _ \<Rightarrow> False)"
  by (simp add: newIndex_def title_index_data_def detached_collection_def
      indexStringToType_def HashIndex_def FullTextIndex_def)

subsection \<open>IsSparse\<close>

text \<open>
  C8 asks that \<open>IsSparse\<close> return the descriptor's sparse attribute. The code reads the
  unique attribute instead: on an index that is unique and not sparse it answers
  \<open>True\<close>, and it always agrees with \<open>IsUnique\<close>.
\<close>

theorem IsSparse_reads_unique:
  "IsSparse \<lparr>data = title_index_data, indexType = HashIndex, db = Some (1::nat),
             col = Some books_collection, conn = Some (2::nat)\<rparr> = True \<and>
   sparse title_index_data = Some False"
  by (simp add: IsSparse_def boolOrFalse_def title_index_data_def)

section \<open>Properties of key extraction\<close>

text \<open>
  C7 asks that \<open>getKeyFromDocument\<close> never panic: a map without a \<open>_key\<close> entry and a
  document of any other shape are to fail with an \<open>InvalidArgumentError\<close>. The code
  calls \<open>IsNil\<close> on the zero Value that \<open>MapIndex\<close> returns for a missing key, and on
  the document itself before looking at its kind, and \<open>IsNil\<close> panics on both: on a
  map without \<open>_key\<close>, on a scalar, and on a struct that is not behind a pointer.
\<close>

theorem getKeyFromDocument_panics:
  "getKeyFromDocument keyless_map =
     Panicked ''reflect: call of reflect.Value.IsNil on zero Value'' \<and>
   getKeyFromDocument (IntV 7) =
     Panicked ''reflect: call of reflect.Value.IsNil on int Value'' \<and>
   getKeyFromDocument (StructV ''Book'' [(''_key,omitempty'', StringV ''b1'')]) =
     Panicked ''reflect: call of reflect.Value.IsNil on struct Value''"
  by (simp add: getKeyFromDocument_def MapIndex_def keyless_map_def)

text \<open>What the function does return, on the documents the later sections use.\<close>

lemma getKeyFromDocument_book: "getKeyFromDocument (book k) = Returned (k, None)"
  by (simp add: getKeyFromDocument_def book_def Value_String_def)


section \<open>Properties of the single-document operations\<close>

subsection \<open>The status check\<close>

lemma CheckStatus_None_iff: "CheckStatus st codes = None \<longleftrightarrow> st \<in> set codes"
  by (simp add: CheckStatus_def)

lemma ReadDocument_status:
  "validateKey c key = None \<and>
   NewRequest c ''GET'' (path_Join c (relPath c) (pathEscape c key)) = Inr req \<and>
   Do c ctx req w = (Inr resp, w1) \<longrightarrow>
     (StatusCode c resp \<noteq> 200 \<longrightarrow>
        (\<exists>err. CheckStatus (StatusCode c resp) [200] = Some err \<and>
           ReadDocument c ctx key result w = ((DocumentMeta_zero, Some (WithStack err)), w1))) \<and>
     (StatusCode c resp = 200 \<and> result = None \<and>
      ParseBody_meta c resp ''edge'' DocumentMeta_zero = (meta, None) \<longrightarrow>
        ReadDocument c ctx key result w = ((meta, None), w1))"
  by (simp add: ReadDocument_def CheckStatus_def)

lemma createDocument_status:
  "NewRequest c ''POST'' (relPath c) = Inr req0 \<and>
   SetBody c req0 doc = Inr req1 \<and>
   applyContextSettings c ctx req1 = (cs, req) \<and>
   Do c ctx req w = (Inr resp, w1) \<longrightarrow>
     (StatusCode c resp \<noteq> okStatus cs 201 202 \<longrightarrow>
        (\<exists>err. CheckStatus (StatusCode c resp) [okStatus cs 201 202] = Some err \<and>
           createDocument c ctx (Some doc) w =
             ((DocumentMeta_zero, cs, Some (WithStack err)), w1))) \<and>
     (StatusCode c resp = okStatus cs 201 202 \<and> Silent cs \<longrightarrow>
        createDocument c ctx (Some doc) w = ((DocumentMeta_zero, cs, None), w1))"
  by (simp add: createDocument_def CheckStatus_def)

lemma updateDocument_status:
  "validateKey c key = None \<and>
   NewRequest c ''PATCH'' (path_Join c (relPath c) (pathEscape c key)) = Inr req0 \<and>
   SetBody c req0 upd = Inr req1 \<and>
   applyContextSettings c ctx req1 = (cs, req) \<and>
   Do c ctx req w = (Inr resp, w1) \<longrightarrow>
     (StatusCode c resp \<notin> {200, 201, 202} \<longrightarrow>
        (\<exists>err. CheckStatus (StatusCode c resp) [200, 201, 202] = Some err \<and>
           updateDocument c ctx key (Some upd) w =
             ((DocumentMeta_zero, cs, Some (WithStack err)), w1))) \<and>
     (StatusCode c resp \<in> {200, 201, 202} \<and> Silent cs \<longrightarrow>
        updateDocument c ctx key (Some upd) w = ((DocumentMeta_zero, cs, None), w1))"
  by (simp add: updateDocument_def CheckStatus_def)

lemma replaceDocument_status:
  "validateKey c key = None \<and>
   NewRequest c ''PUT'' (path_Join c (relPath c) (pathEscape c key)) = Inr req0 \<and>
   SetBody c req0 doc = Inr req1 \<and>
   applyContextSettings c ctx req1 = (cs, req) \<and>
   Do c ctx req w = (Inr resp, w1) \<longrightarrow>
     (StatusCode c resp \<noteq> okStatus cs 201 202 \<longrightarrow>
        (\<exists>err. CheckStatus (StatusCode c resp) [okStatus cs 201 202] = Some err \<and>
           replaceDocument c ctx key (Some doc) w =
             ((DocumentMeta_zero, cs, Some (WithStack err)), w1))) \<and>
     (StatusCode c resp = okStatus cs 201 202 \<and> Silent cs \<longrightarrow>
        replaceDocument c ctx key (Some doc) w = ((DocumentMeta_zero, cs, None), w1))"
  by (simp add: replaceDocument_def CheckStatus_def)

lemma removeDocument_status:
  "validateKey c key = None \<and>
   NewRequest c ''DELETE'' (path_Join c (relPath c) (pathEscape c key)) = Inr req0 \<and>
   applyContextSettings c ctx req0 = (cs, req) \<and>
   Do c ctx req w = (Inr resp, w1) \<longrightarrow>
     (StatusCode c resp \<noteq> okStatus cs 200 202 \<longrightarrow>
        (\<exists>err. CheckStatus (StatusCode c resp) [okStatus cs 200 202] = Some err \<and>
           removeDocument c ctx key w =
             ((DocumentMeta_zero, cs, Some (WithStack err)), w1))) \<and>
     (StatusCode c resp = okStatus cs 200 202 \<and> Silent cs \<longrightarrow>
        removeDocument c ctx key w = ((DocumentMeta_zero, cs, None), w1))"
  by (simp add: removeDocument_def CheckStatus_def)

text \<open>
  C5. Each verb, once a response has arrived, checks its status against its own
  accepted codes: \<open>200\<close> for read, \<open>okStatus(201, 202)\<close> for create and replace,
  \<open>200, 201, 202\<close> for update and \<open>okStatus(200, 202)\<close> for remove. A status outside
  them makes the operation fail with the error of the status check, wrapped, and the
  zero \<open>DocumentMeta\<close>. A status among them passes the check: a silent write then
  succeeds at once, and a read returns the metadata it decodes.
\<close>

theorem status_checked_against_own_codes:
  "(validateKey c key = None \<and>
    NewRequest c ''GET'' (path_Join c (relPath c) (pathEscape c key)) = Inr rreq \<and>
    Do c ctx rreq w = (Inr resp, w1) \<longrightarrow>
      (StatusCode c resp \<noteq> 200 \<longrightarrow>
         (\<exists>err. CheckStatus (StatusCode c resp) [200] = Some err \<and>
            ReadDocument c ctx key result w =
              ((DocumentMeta_zero, Some (WithStack err)), w1))) \<and>
      (StatusCode c resp = 200 \<and> result = None \<and>
       ParseBody_meta c resp ''edge'' DocumentMeta_zero = (meta, None) \<longrightarrow>
         ReadDocument c ctx key result w = ((meta, None), w1))) \<and>
   (NewRequest c ''POST'' (relPath c) = Inr creq0 \<and>
    SetBody c creq0 doc = Inr creq1 \<and>
    applyContextSettings c ctx creq1 = (cs, creq) \<and>
    Do c ctx creq w = (Inr resp, w1) \<longrightarrow>
      (StatusCode c resp \<noteq> okStatus cs 201 202 \<longrightarrow>
         (\<exists>err. CheckStatus (StatusCode c resp) [okStatus cs 201 202] = Some err \<and>
            createDocument c ctx (Some doc) w =
              ((DocumentMeta_zero, cs, Some (WithStack err)), w1))) \<and>
      (StatusCode c resp = okStatus cs 201 202 \<and> Silent cs \<longrightarrow>
         createDocument c ctx (Some doc) w = ((DocumentMeta_zero, cs, None), w1))) \<and>
   (validateKey c key = None \<and>
    NewRequest c ''PATCH'' (path_Join c (relPath c) (pathEscape c key)) = Inr ureq0 \<and>
    SetBody c ureq0 doc = Inr ureq1 \<and>
    applyContextSettings c ctx ureq1 = (cs, ureq) \<and>
    Do c ctx ureq w = (Inr resp, w1) \<longrightarrow>
      (StatusCode c resp \<notin> {200, 201, 202} \<longrightarrow>
         (\<exists>err. CheckStatus (StatusCode c resp) [200, 201, 202] = Some err \<and>
            updateDocument c ctx key (Some doc) w =
              ((DocumentMeta_zero, cs, Some (WithStack err)), w1))) \<and>
      (StatusCode c resp \<in> {200, 201, 202} \<and> Silent cs \<longrightarrow>
         updateDocument c ctx key (Some doc) w = ((DocumentMeta_zero, cs, None), w1))) \<and>
   (validateKey c key = None \<and>
    NewRequest c ''PUT'' (path_Join c (relPath c) (pathEscape c key)) = Inr preq0 \<and>
    SetBody c preq0 doc = Inr preq1 \<and>
    applyContextSettings c ctx preq1 = (cs, preq) \<and>
    Do c ctx preq w = (Inr resp, w1) \<longrightarrow>
      (StatusCode c resp \<noteq> okStatus cs 201 202 \<longrightarrow>
         (\<exists>err. CheckStatus (StatusCode c resp) [okStatus cs 201 202] = Some err \<and>
            replaceDocument c ctx key (Some doc) w =
              ((DocumentMeta_zero, cs, Some (WithStack err)), w1))) \<and>
      (StatusCode c resp = okStatus cs 201 202 \<and> Silent cs \<longrightarrow>
         replaceDocument c ctx key (Some doc) w = ((DocumentMeta_zero, cs, None), w1))) \<and>
   (validateKey c key = None \<and>
    NewRequest c ''DELETE'' (path_Join c (relPath c) (pathEscape c key)) = Inr dreq0 \<and>
    applyContextSettings c ctx dreq0 = (cs, dreq) \<and>
    Do c ctx dreq w = (Inr resp, w1) \<longrightarrow>
      (StatusCode c resp \<noteq> okStatus cs 200 202 \<longrightarrow>
         (\<exists>err. CheckStatus (StatusCode c resp) [okStatus cs 200 202] = Some err \<and>
            removeDocument c ctx key w =
              ((DocumentMeta_zero, cs, Some (WithStack err)), w1))) \<and>
      (StatusCode c resp = okStatus cs 200 202 \<and> Silent cs \<longrightarrow>
         removeDocument c ctx key w = ((DocumentMeta_zero, cs, None), w1)))"
  by (intro conjI ReadDocument_status createDocument_status updateDocument_status
      replaceDocument_status removeDocument_status)

lemma stub_update_missing:
  "validateKey stub ''missing'' = None \<and>
   NewRequest stub ''PATCH'' (path_Join stub (relPath stub) (pathEscape stub ''missing'')) =
     Inr (''PATCH'', ''edges/missing'', None) \<and>
   SetBody stub (''PATCH'', ''edges/missing'', None) (book ''m'') =
     Inr (''PATCH'', ''edges/missing'', Some (book ''m'')) \<and>
   applyContextSettings stub contextSettings_zero (''PATCH'', ''edges/missing'', Some (book ''m'')) =
     (contextSettings_zero, (''PATCH'', ''edges/missing'', Some (book ''m''))) \<and>
   Do stub contextSettings_zero (''PATCH'', ''edges/missing'', Some (book ''m'')) [] =
     (Inr \<lparr>stub_status = 404, stub_edge = (DocumentMeta_zero, Some (DecodeError ''edge'')),
           stub_envelopes = []\<rparr>,
      [(''PATCH'', ''edges/missing'', Some (book ''m''))])"
  by (simp add: stub_def stub_Do_def stub_key_def Let_def)

theorem status_checked_against_own_codes_witness:
  "StatusCode stub \<lparr>stub_status = 404,
      stub_edge = (DocumentMeta_zero, Some (DecodeError ''edge'')), stub_envelopes = []\<rparr>
     \<notin> {200, 201, 202} \<and>
   updateDocument stub contextSettings_zero ''missing'' (Some (book ''m'')) [] =
     ((DocumentMeta_zero, contextSettings_zero, Some (WithStack NotFoundError)),
      [(''PATCH'', ''edges/missing'', Some (book ''m''))])"
proof -
  let ?resp = "\<lparr>stub_status = 404,
      stub_edge = (DocumentMeta_zero, Some (DecodeError ''edge'')), stub_envelopes = []\<rparr>"
  let ?req = "(''PATCH'', ''edges/missing'', Some (book ''m''))"
  have st: "StatusCode stub ?resp \<notin> {200, 201, 202}"
    by (simp add: stub_def)
  have block: "validateKey stub ''missing'' = None \<and>
     NewRequest stub ''PATCH'' (path_Join stub (relPath stub) (pathEscape stub ''missing'')) =
       Inr (''PATCH'', ''edges/missing'', None) \<and>
     SetBody stub (''PATCH'', ''edges/missing'', None) (book ''m'') = Inr ?req \<and>
     applyContextSettings stub contextSettings_zero ?req = (contextSettings_zero, ?req) \<and>
     Do stub contextSettings_zero ?req [] = (Inr ?resp, [?req]) \<longrightarrow>
       (StatusCode stub ?resp \<notin> {200, 201, 202} \<longrightarrow>
          (\<exists>err. CheckStatus (StatusCode stub ?resp) [200, 201, 202] = Some err \<and>
             updateDocument stub contextSettings_zero ''missing'' (Some (book ''m'')) [] =
               ((DocumentMeta_zero, contextSettings_zero, Some (WithStack err)), [?req]))) \<and>
       (StatusCode stub ?resp \<in> {200, 201, 202} \<and> Silent contextSettings_zero \<longrightarrow>
          updateDocument stub contextSettings_zero ''missing'' (Some (book ''m'')) [] =
            ((DocumentMeta_zero, contextSettings_zero, None), [?req]))"
    by (rule status_checked_against_own_codes [THEN conjunct2, THEN conjunct2, THEN conjunct1])
  from block stub_update_missing st obtain err where
    err: "CheckStatus (StatusCode stub ?resp) [200, 201, 202] = Some err"
    and run: "updateDocument stub contextSettings_zero ''missing'' (Some (book ''m'')) [] =
       ((DocumentMeta_zero, contextSettings_zero, Some (WithStack err)), [?req])"
    by blast
  from err have "err = NotFoundError"
    by (simp add: stub_def CheckStatus_def)
  with run st show ?thesis by simp
qed

subsection \<open>Decode failures\<close>

lemma createDocument_decode:
  "NewRequest c ''POST'' (relPath c) = Inr req0 \<and>
   SetBody c req0 doc = Inr req1 \<and>
   applyContextSettings c ctx req1 = (cs, req) \<and>
   Do c ctx req w = (Inr resp, w1) \<and>
   StatusCode c resp = okStatus cs 201 202 \<and> \<not> Silent cs \<longrightarrow>
     (ParseBody_meta c resp ''edge'' DocumentMeta_zero = (partial, Some err) \<longrightarrow>
        createDocument c ctx (Some doc) w =
          ((DocumentMeta_zero, cs, Some (WithStack err)), w1) \<and>
        CreateDocument c ctx (Some doc) w =
          ((DocumentMeta_zero, Some (WithStack (WithStack err))), w1)) \<and>
     (ParseBody_meta c resp ''edge'' DocumentMeta_zero = (meta, None) \<and>
      ReturnNew cs = Some snk \<and> ParseBody c resp ''new'' snk w1 = (Some err, w2) \<longrightarrow>
        createDocument c ctx (Some doc) w = ((meta, cs, Some (WithStack err)), w2) \<and>
        CreateDocument c ctx (Some doc) w =
          ((DocumentMeta_zero, Some (WithStack (WithStack err))), w2))"
  by (simp add: createDocument_def CreateDocument_def CheckStatus_def)

lemma updateDocument_decode:
  "validateKey c key = None \<and>
   NewRequest c ''PATCH'' (path_Join c (relPath c) (pathEscape c key)) = Inr req0 \<and>
   SetBody c req0 doc = Inr req1 \<and>
   applyContextSettings c ctx req1 = (cs, req) \<and>
   Do c ctx req w = (Inr resp, w1) \<and>
   StatusCode c resp \<in> {200, 201, 202} \<and> \<not> Silent cs \<longrightarrow>
     (ParseBody_meta c resp ''edge'' DocumentMeta_zero = (partial, Some err) \<longrightarrow>
        updateDocument c ctx key (Some doc) w =
          ((DocumentMeta_zero, cs, Some (WithStack err)), w1) \<and>
        UpdateDocument c ctx key (Some doc) w =
          ((DocumentMeta_zero, Some (WithStack (WithStack err))), w1)) \<and>
     (ParseBody_meta c resp ''edge'' DocumentMeta_zero = (meta, None) \<and>
      ReturnOld cs = Some snk \<and> ParseBody c resp ''old'' snk w1 = (Some err, w2) \<longrightarrow>
        updateDocument c ctx key (Some doc) w = ((meta, cs, Some (WithStack err)), w2) \<and>
        UpdateDocument c ctx key (Some doc) w =
          ((DocumentMeta_zero, Some (WithStack (WithStack err))), w2)) \<and>
     (ParseBody_meta c resp ''edge'' DocumentMeta_zero = (meta, None) \<and>
      (case ReturnOld cs of None \<Rightarrow> (None, w1)
                          | Some old \<Rightarrow> ParseBody c resp ''old'' old w1) = (None, w2) \<and>
      ReturnNew cs = Some snk \<and> ParseBody c resp ''new'' snk w2 = (Some err, w3) \<longrightarrow>
        updateDocument c ctx key (Some doc) w = ((meta, cs, Some (WithStack err)), w3) \<and>
        UpdateDocument c ctx key (Some doc) w =
          ((DocumentMeta_zero, Some (WithStack (WithStack err))), w3))"
  by (simp add: updateDocument_def UpdateDocument_def CheckStatus_def)

lemma replaceDocument_decode:
  "validateKey c key = None \<and>
   NewRequest c ''PUT'' (path_Join c (relPath c) (pathEscape c key)) = Inr req0 \<and>
   SetBody c req0 doc = Inr req1 \<and>
   applyContextSettings c ctx req1 = (cs, req) \<and>
   Do c ctx req w = (Inr resp, w1) \<and>
   StatusCode c resp = okStatus cs 201 202 \<and> \<not> Silent cs \<longrightarrow>
     (ParseBody_meta c resp ''edge'' DocumentMeta_zero = (partial, Some err) \<longrightarrow>
        replaceDocument c ctx key (Some doc) w =
          ((DocumentMeta_zero, cs, Some (WithStack err)), w1) \<and>
        ReplaceDocument c ctx key (Some doc) w =
          ((DocumentMeta_zero, Some (WithStack (WithStack err))), w1)) \<and>
     (ParseBody_meta c resp ''edge'' DocumentMeta_zero = (meta, None) \<and>
      ReturnOld cs = Some snk \<and> ParseBody c resp ''old'' snk w1 = (Some err, w2) \<longrightarrow>
        replaceDocument c ctx key (Some doc) w = ((meta, cs, Some (WithStack err)), w2) \<and>
        ReplaceDocument c ctx key (Some doc) w =
          ((DocumentMeta_zero, Some (WithStack (WithStack err))), w2)) \<and>
     (ParseBody_meta c resp ''edge'' DocumentMeta_zero = (meta, None) \<and>
      (case ReturnOld cs of None \<Rightarrow> (None, w1)
                          | Some old \<Rightarrow> ParseBody c resp ''old'' old w1) = (None, w2) \<and>
      ReturnNew cs = Some snk \<and> ParseBody c resp ''new'' snk w2 = (Some err, w3) \<longrightarrow>
        replaceDocument c ctx key (Some doc) w = ((meta, cs, Some (WithStack err)), w3) \<and>
        ReplaceDocument c ctx key (Some doc) w =
          ((DocumentMeta_zero, Some (WithStack (WithStack err))), w3))"
  by (simp add: replaceDocument_def ReplaceDocument_def CheckStatus_def)

lemma removeDocument_decode:
  "validateKey c key = None \<and>
   NewRequest c ''DELETE'' (path_Join c (relPath c) (pathEscape c key)) = Inr req0 \<and>
   applyContextSettings c ctx req0 = (cs, req) \<and>
   Do c ctx req w = (Inr resp, w1) \<and>
   StatusCode c resp = okStatus cs 200 202 \<and> \<not> Silent cs \<longrightarrow>
     (ParseBody_meta c resp ''edge'' DocumentMeta_zero = (partial, Some err) \<longrightarrow>
        removeDocument c ctx key w =
          ((DocumentMeta_zero, cs, Some (WithStack err)), w1) \<and>
        RemoveDocument c ctx key w =
          ((DocumentMeta_zero, Some (WithStack (WithStack err))), w1)) \<and>
     (ParseBody_meta c resp ''edge'' DocumentMeta_zero = (meta, None) \<and>
      ReturnOld cs = Some snk \<and> ParseBody c resp ''old'' snk w1 = (Some err, w2) \<longrightarrow>
        removeDocument c ctx key w = ((meta, cs, Some (WithStack err)), w2) \<and>
        RemoveDocument c ctx key w =
          ((DocumentMeta_zero, Some (WithStack (WithStack err))), w2))"
  by (simp add: removeDocument_def RemoveDocument_def CheckStatus_def)

text \<open>
  C6, as the code has it. Past the status check of a write that is not silent, a
  failure to decode the primary envelope \<open>edge\<close> makes the internal operation return
  the error with the zero \<open>DocumentMeta\<close>: what was decoded so far is dropped. A
  failure to decode the \<open>old\<close> or the \<open>new\<close> envelope makes it return the error
  together with the metadata already decoded. The public operation returns the zero
  \<open>DocumentMeta\<close> with every error, wrapped once more.
\<close>

theorem decode_failure_results:
  "(NewRequest c ''POST'' (relPath c) = Inr creq0 \<and>
    SetBody c creq0 doc = Inr creq1 \<and>
    applyContextSettings c ctx creq1 = (cs, creq) \<and>
    Do c ctx creq w = (Inr resp, w1) \<and>
    StatusCode c resp = okStatus cs 201 202 \<and> \<not> Silent cs \<longrightarrow>
      (ParseBody_meta c resp ''edge'' DocumentMeta_zero = (partial, Some err) \<longrightarrow>
         createDocument c ctx (Some doc) w =
           ((DocumentMeta_zero, cs, Some (WithStack err)), w1) \<and>
         CreateDocument c ctx (Some doc) w =
           ((DocumentMeta_zero, Some (WithStack (WithStack err))), w1)) \<and>
      (ParseBody_meta c resp ''edge'' DocumentMeta_zero = (meta, None) \<and>
       ReturnNew cs = Some snk \<and> ParseBody c resp ''new'' snk w1 = (Some err, w2) \<longrightarrow>
         createDocument c ctx (Some doc) w = ((meta, cs, Some (WithStack err)), w2) \<and>
         CreateDocument c ctx (Some doc) w =
           ((DocumentMeta_zero, Some (WithStack (WithStack err))), w2))) \<and>
   (validateKey c key = None \<and>
    NewRequest c ''PATCH'' (path_Join c (relPath c) (pathEscape c key)) = Inr ureq0 \<and>
    SetBody c ureq0 doc = Inr ureq1 \<and>
    applyContextSettings c ctx ureq1 = (cs, ureq) \<and>
    Do c ctx ureq w = (Inr resp, w1) \<and>
    StatusCode c resp \<in> {200, 201, 202} \<and> \<not> Silent cs \<longrightarrow>
      (ParseBody_meta c resp ''edge'' DocumentMeta_zero = (partial, Some err) \<longrightarrow>
         updateDocument c ctx key (Some doc) w =
           ((DocumentMeta_zero, cs, Some (WithStack err)), w1) \<and>
         UpdateDocument c ctx key (Some doc) w =
           ((DocumentMeta_zero, Some (WithStack (WithStack err))), w1)) \<and>
      (ParseBody_meta c resp ''edge'' DocumentMeta_zero = (meta, None) \<and>
       ReturnOld cs = Some snk \<and> ParseBody c resp ''old'' snk w1 = (Some err, w2) \<longrightarrow>
         updateDocument c ctx key (Some doc) w = ((meta, cs, Some (WithStack err)), w2) \<and>
         UpdateDocument c ctx key (Some doc) w =
           ((DocumentMeta_zero, Some (WithStack (WithStack err))), w2)) \<and>
      (ParseBody_meta c resp ''edge'' DocumentMeta_zero = (meta, None) \<and>
       (case ReturnOld cs of None \<Rightarrow> (None, w1)
                           | Some old \<Rightarrow> ParseBody c resp ''old'' old w1) = (None, w2) \<and>
       ReturnNew cs = Some snk \<and> ParseBody c resp ''new'' snk w2 = (Some err, w3) \<longrightarrow>
         updateDocument c ctx key (Some doc) w = ((meta, cs, Some (WithStack err)), w3) \<and>
         UpdateDocument c ctx key (Some doc) w =
           ((DocumentMeta_zero, Some (WithStack (WithStack err))), w3))) \<and>
   (validateKey c key = None \<and>
    NewRequest c ''PUT'' (path_Join c (relPath c) (pathEscape c key)) = Inr preq0 \<and>
    SetBody c preq0 doc = Inr preq1 \<and>
    applyContextSettings c ctx preq1 = (cs, preq) \<and>
    Do c ctx preq w = (Inr resp, w1) \<and>
    StatusCode c resp = okStatus cs 201 202 \<and> \<not> Silent cs \<longrightarrow>
      (ParseBody_meta c resp ''edge'' DocumentMeta_zero = (partial, Some err) \<longrightarrow>
         replaceDocument c ctx key (Some doc) w =
           ((DocumentMeta_zero, cs, Some (WithStack err)), w1) \<and>
         ReplaceDocument c ctx key (Some doc) w =
           ((DocumentMeta_zero, Some (WithStack (WithStack err))), w1)) \<and>
      (ParseBody_meta c resp ''edge'' DocumentMeta_zero = (meta, None) \<and>
       ReturnOld cs = Some snk \<and> ParseBody c resp ''old'' snk w1 = (Some err, w2) \<longrightarrow>
         replaceDocument c ctx key (Some doc) w = ((meta, cs, Some (WithStack err)), w2) \<and>
         ReplaceDocument c ctx key (Some doc) w =
           ((DocumentMeta_zero, Some (WithStack (WithStack err))), w2)) \<and>
      (ParseBody_meta c resp ''edge'' DocumentMeta_zero = (meta, None) \<and>
       (case ReturnOld cs of None \<Rightarrow> (None, w1)
                           | Some old \<Rightarrow> ParseBody c resp ''old'' old w1) = (None, w2) \<and>
       ReturnNew cs = Some snk \<and> ParseBody c resp ''new'' snk w2 = (Some err, w3) \<longrightarrow>
         replaceDocument c ctx key (Some doc) w = ((meta, cs, Some (WithStack err)), w3) \<and>
         ReplaceDocument c ctx key (Some doc) w =
           ((DocumentMeta_zero, Some (WithStack (WithStack err))), w3))) \<and>
   (validateKey c key = None \<and>
    NewRequest c ''DELETE'' (path_Join c (relPath c) (pathEscape c key)) = Inr dreq0 \<and>
    applyContextSettings c ctx dreq0 = (cs, dreq) \<and>
    Do c ctx dreq w = (Inr resp, w1) \<and>
    StatusCode c resp = okStatus cs 200 202 \<and> \<not> Silent cs \<longrightarrow>
      (ParseBody_meta c resp ''edge'' DocumentMeta_zero = (partial, Some err) \<longrightarrow>
         removeDocument c ctx key w =
           ((DocumentMeta_zero, cs, Some (WithStack err)), w1) \<and>
         RemoveDocument c ctx key w =
           ((DocumentMeta_zero, Some (WithStack (WithStack err))), w1)) \<and>
      (ParseBody_meta c resp ''edge'' DocumentMeta_zero = (meta, None) \<and>
       ReturnOld cs = Some snk \<and> ParseBody c resp ''old'' snk w1 = (Some err, w2) \<longrightarrow>
         removeDocument c ctx key w = ((meta, cs, Some (WithStack err)), w2) \<and>
         RemoveDocument c ctx key w =
           ((DocumentMeta_zero, Some (WithStack (WithStack err))), w2)))"
  by (intro conjI createDocument_decode updateDocument_decode replaceDocument_decode
      removeDocument_decode)

lemma stub_create_with_ReturnNew:
  "NewRequest stub ''POST'' (relPath stub) = Inr (''POST'', ''edges'', None) \<and>
   SetBody stub (''POST'', ''edges'', None) (book ''a'') =
     Inr (''POST'', ''edges'', Some (book ''a'')) \<and>
   applyContextSettings stub with_ReturnNew (''POST'', ''edges'', Some (book ''a'')) =
     (with_ReturnNew, (''POST'', ''edges'', Some (book ''a''))) \<and>
   Do stub with_ReturnNew (''POST'', ''edges'', Some (book ''a'')) [] =
     (Inr \<lparr>stub_status = 202,
           stub_edge = (\<lparr>Key = ''a'', ID = ''edges/a'', Rev = ''1''\<rparr>, None),
           stub_envelopes = []\<rparr>,
      [(''POST'', ''edges'', Some (book ''a''))]) \<and>
   StatusCode stub \<lparr>stub_status = 202,
       stub_edge = (\<lparr>Key = ''a'', ID = ''edges/a'', Rev = ''1''\<rparr>, None),
       stub_envelopes = []\<rparr> = okStatus with_ReturnNew 201 202 \<and>
   \<not> Silent with_ReturnNew"
  by (simp add: stub_def stub_Do_def stub_key_def stub_ok_def getKeyFromDocument_book
      with_ReturnNew_def contextSettings_zero_def okStatus_def Let_def)

lemma stub_decode_with_ReturnNew:
  "ParseBody_meta stub \<lparr>stub_status = 202,
       stub_edge = (\<lparr>Key = ''a'', ID = ''edges/a'', Rev = ''1''\<rparr>, None),
       stub_envelopes = []\<rparr> ''edge'' DocumentMeta_zero =
     (\<lparr>Key = ''a'', ID = ''edges/a'', Rev = ''1''\<rparr>, None) \<and>
   ReturnNew with_ReturnNew = Some 1 \<and>
   ParseBody stub \<lparr>stub_status = 202,
       stub_edge = (\<lparr>Key = ''a'', ID = ''edges/a'', Rev = ''1''\<rparr>, None),
       stub_envelopes = []\<rparr> ''new'' 1 [(''POST'', ''edges'', Some (book ''a''))] =
     (Some (DecodeError ''new''), [(''POST'', ''edges'', Some (book ''a''))])"
  by (simp add: stub_def with_ReturnNew_def contextSettings_zero_def)

theorem decode_failure_results_witness:
  "createDocument stub with_ReturnNew (Some (book ''a'')) [] =
     ((\<lparr>Key = ''a'', ID = ''edges/a'', Rev = ''1''\<rparr>, with_ReturnNew,
       Some (WithStack (DecodeError ''new''))),
      [(''POST'', ''edges'', Some (book ''a''))]) \<and>
   CreateDocument stub with_ReturnNew (Some (book ''a'')) [] =
     ((DocumentMeta_zero, Some (WithStack (WithStack (DecodeError ''new'')))),
      [(''POST'', ''edges'', Some (book ''a''))])"
  using decode_failure_results [THEN conjunct1, THEN mp, OF stub_create_with_ReturnNew,
      THEN conjunct2, THEN mp, OF stub_decode_with_ReturnNew]
  by simp

text \<open>
  The claim as written has the caller keep the decoded metadata beside a decode
  error. Creating a document with \<open>ReturnNew\<close> against a server that sends no \<open>new\<close>
  envelope: the metadata stage succeeds with key \<open>a\<close>, \<open>createDocument\<close> returns that
  metadata with the error, and \<open>CreateDocument\<close>, which the caller sees, returns the
  zero \<open>DocumentMeta\<close>. When the primary envelope itself only partly decodes, the
  part decoded is dropped by \<open>createDocument\<close> already.
\<close>

theorem CreateDocument_drops_meta_counterexample:
  "fst (createDocument stub with_ReturnNew (Some (book ''a'')) []) =
     (\<lparr>Key = ''a'', ID = ''edges/a'', Rev = ''1''\<rparr>, with_ReturnNew,
      Some (WithStack (DecodeError ''new''))) \<and>
   fst (CreateDocument stub with_ReturnNew (Some (book ''a'')) []) =
     (DocumentMeta_zero, Some (WithStack (WithStack (DecodeError ''new'')))) \<and>
   \<lparr>Key = ''a'', ID = ''edges/a'', Rev = ''1''\<rparr> \<noteq> DocumentMeta_zero \<and>
   ParseBody_meta stub \<lparr>stub_status = 202,
       stub_edge = (\<lparr>Key = ''garbled'', ID = [], Rev = []\<rparr>, Some (DecodeError ''edge'')),
       stub_envelopes = []\<rparr> ''edge'' DocumentMeta_zero =
     (\<lparr>Key = ''garbled'', ID = [], Rev = []\<rparr>, Some (DecodeError ''edge'')) \<and>
   fst (createDocument stub contextSettings_zero (Some (book ''garbled'')) []) =
     (DocumentMeta_zero, contextSettings_zero, Some (WithStack (DecodeError ''edge'')))"
  by (simp add: createDocument_def CreateDocument_def stub_def stub_Do_def stub_key_def
      stub_ok_def getKeyFromDocument_book with_ReturnNew_def contextSettings_zero_def
      okStatus_def CheckStatus_def DocumentMeta_zero_def Let_def)

section \<open>Properties of the batch operations\<close>

subsection \<open>Indexing and key validation\<close>


lemma range_validateKey_Some:
  "\<exists>k\<in>set ks. vk k \<noteq> None \<Longrightarrow>
     \<exists>k err. k \<in> set ks \<and> vk k = Some err \<and> range_validateKey vk ks = Some err"
  by (induction ks) (auto split: option.splits)


subsection \<open>What a single operation returns\<close>





subsection \<open>The loops\<close>






































subsection \<open>Explicit keys are checked before any item is touched\<close>

lemma UpdateDocuments_keys_mismatch:
  assumes "Kind (ValueOf updates) = reflect_Array \<or> Kind (ValueOf updates) = reflect_Slice"
    and "length ks \<noteq> Value_Len (ValueOf updates)"
  shows "UpdateDocuments c ctx (Some ks) updates w =
     (Returned (None, None, Some (WithStack (InvalidArgumentError
        (''expected '' @ fmt_d (Value_Len (ValueOf updates)) @ '' keys, got ''
           @ fmt_s_int (length ks))))), w)"
  using assms by (auto simp: UpdateDocuments_def Let_def)

lemma UpdateDocuments_invalid_key:
  assumes "Kind (ValueOf updates) = reflect_Array \<or> Kind (ValueOf updates) = reflect_Slice"
    and "length ks = Value_Len (ValueOf updates)"
    and "range_validateKey (validateKey c) ks = Some err"
  shows "UpdateDocuments c ctx (Some ks) updates w =
     (Returned (None, None, Some (WithStack err)), w)"
  using assms by (auto simp: UpdateDocuments_def Let_def)

lemma ReplaceDocuments_keys_mismatch:
  assumes "Kind (ValueOf documents) = reflect_Array \<or> Kind (ValueOf documents) = reflect_Slice"
    and "length ks \<noteq> Value_Len (ValueOf documents)"
  shows "ReplaceDocuments c ctx (Some ks) documents w =
     (Returned (None, None, Some (WithStack (InvalidArgumentError
        (''expected '' @ fmt_d (Value_Len (ValueOf documents)) @ '' keys, got ''
           @ fmt_s_int (length ks))))), w)"
  using assms by (auto simp: ReplaceDocuments_def Let_def)

lemma ReplaceDocuments_invalid_key:
  assumes "Kind (ValueOf documents) = reflect_Array \<or> Kind (ValueOf documents) = reflect_Slice"
    and "length ks = Value_Len (ValueOf documents)"
    and "range_validateKey (validateKey c) ks = Some err"
  shows "ReplaceDocuments c ctx (Some ks) documents w =
     (Returned (None, None, Some (WithStack err)), w)"
  using assms by (auto simp: ReplaceDocuments_def Let_def)

text \<open>
  C3. \<open>UpdateDocuments\<close> and \<open>ReplaceDocuments\<close> with explicit keys over an array or
  slice of \<open>N\<close> items. If the number of keys is not \<open>N\<close>, the call returns nil metas,
  nil errs and an \<open>InvalidArgumentError\<close>. If it is \<open>N\<close> and some key fails
  \<open>validateKey\<close>, the call returns nil metas, nil errs and the validation error of
  such a key. In both cases the world is returned as it was given: the loop over the
  items is never entered, so no operation is invoked and no request is sent.
\<close>

theorem explicit_keys_checked_first:
  "Kind (ValueOf documents) = reflect_Array \<or> Kind (ValueOf documents) = reflect_Slice \<longrightarrow>
   (length ks \<noteq> Value_Len (ValueOf documents) \<longrightarrow>
      UpdateDocuments c ctx (Some ks) documents w =
        (Returned (None, None, Some (WithStack (InvalidArgumentError
           (''expected '' @ fmt_d (Value_Len (ValueOf documents)) @ '' keys, got ''
              @ fmt_s_int (length ks))))), w) \<and>
      ReplaceDocuments c ctx (Some ks) documents w =
        (Returned (None, None, Some (WithStack (InvalidArgumentError
           (''expected '' @ fmt_d (Value_Len (ValueOf documents)) @ '' keys, got ''
              @ fmt_s_int (length ks))))), w)) \<and>
   (length ks = Value_Len (ValueOf documents) \<and> (\<exists>k\<in>set ks. validateKey c k \<noteq> None) \<longrightarrow>
      (\<exists>k err. k \<in> set ks \<and> validateKey c k = Some err \<and>
         UpdateDocuments c ctx (Some ks) documents w =
           (Returned (None, None, Some (WithStack err)), w) \<and>
         ReplaceDocuments c ctx (Some ks) documents w =
           (Returned (None, None, Some (WithStack err)), w)))"
proof (intro impI conjI)
  assume kind: "Kind (ValueOf documents) = reflect_Array \<or> Kind (ValueOf documents) = reflect_Slice"
    and "length ks \<noteq> Value_Len (ValueOf documents)"
  then show "UpdateDocuments c ctx (Some ks) documents w =
      (Returned (None, None, Some (WithStack (InvalidArgumentError
         (''expected '' @ fmt_d (Value_Len (ValueOf documents)) @ '' keys, got ''
            @ fmt_s_int (length ks))))), w)"
    by (rule UpdateDocuments_keys_mismatch)
next
  assume kind: "Kind (ValueOf documents) = reflect_Array \<or> Kind (ValueOf documents) = reflect_Slice"
    and "length ks \<noteq> Value_Len (ValueOf documents)"
  then show "ReplaceDocuments c ctx (Some ks) documents w =
      (Returned (None, None, Some (WithStack (InvalidArgumentError
         (''expected '' @ fmt_d (Value_Len (ValueOf documents)) @ '' keys, got ''
            @ fmt_s_int (length ks))))), w)"
    by (rule ReplaceDocuments_keys_mismatch)
next
  assume kind: "Kind (ValueOf documents) = reflect_Array \<or> Kind (ValueOf documents) = reflect_Slice"
    and a: "length ks = Value_Len (ValueOf documents) \<and> (\<exists>k\<in>set ks. validateKey c k \<noteq> None)"
  then obtain k err where k: "k \<in> set ks" "validateKey c k = Some err"
    and r: "range_validateKey (validateKey c) ks = Some err"
    using range_validateKey_Some [of ks "validateKey c"] by blast
  from a have len: "length ks = Value_Len (ValueOf documents)" by simp
  show "\<exists>k err. k \<in> set ks \<and> validateKey c k = Some err \<and>
       UpdateDocuments c ctx (Some ks) documents w =
         (Returned (None, None, Some (WithStack err)), w) \<and>
       ReplaceDocuments c ctx (Some ks) documents w =
         (Returned (None, None, Some (WithStack err)), w)"
    using k UpdateDocuments_invalid_key [OF kind len r]
      ReplaceDocuments_invalid_key [OF kind len r]
    by blast
qed

lemma stub_two_books:
  "Kind (ValueOf (books [book ''a'', book ''b''])) = reflect_Array \<or>
   Kind (ValueOf (books [book ''a'', book ''b''])) = reflect_Slice"
  by (simp add: books_def ValueOf_def)

theorem explicit_keys_checked_first_witness:
  "UpdateDocuments stub contextSettings_zero (Some [''a'']) (books [book ''a'', book ''b'']) [] =
     (Returned (None, None,
        Some (WithStack (InvalidArgumentError ''expected 2 keys, got %!s(int=1)''))), []) \<and>
   UpdateDocuments stub contextSettings_zero (Some [''a'', ''b/c''])
       (books [book ''a'', book ''b'']) [] =
     (Returned (None, None, Some (WithStack (InvalidKeyError ''b/c''))), [])"
proof -
  let ?docs = "books [book ''a'', book ''b'']"
  have len: "Value_Len (ValueOf ?docs) = 2"
    by (simp add: books_def ValueOf_def Value_Len_def)
  have m: "length [''a''] \<noteq> Value_Len (ValueOf ?docs)"
    by (simp add: len)
  have v: "length [''a'', ''b/c''] = Value_Len (ValueOf ?docs) \<and>
      (\<exists>k\<in>set [''a'', ''b/c'']. validateKey stub k \<noteq> None)"
    by (simp add: len stub_def)
  from explicit_keys_checked_first
    [where c = stub and ctx = contextSettings_zero and w = "[]" and documents = ?docs
       and ks = "[''a'']", THEN mp, OF stub_two_books, THEN conjunct1, THEN mp, OF m]
  have first: "UpdateDocuments stub contextSettings_zero (Some [''a'']) ?docs [] =
     (Returned (None, None,
        Some (WithStack (InvalidArgumentError ''expected 2 keys, got %!s(int=1)''))), [])"
    by (simp add: len fmt_s_int_def)
  from explicit_keys_checked_first
    [where c = stub and ctx = contextSettings_zero and w = "[]" and documents = ?docs
       and ks = "[''a'', ''b/c'']", THEN mp, OF stub_two_books, THEN conjunct2, THEN mp, OF v]
  obtain k err where
    k: "k \<in> set [''a'', ''b/c'']" "validateKey stub k = Some err"
    and run: "UpdateDocuments stub contextSettings_zero (Some [''a'', ''b/c'']) ?docs [] =
       (Returned (None, None, Some (WithStack err)), [])"
    by blast
  from k have "err = InvalidKeyError ''b/c''"
    by (auto simp: stub_def split: if_splits)
  with first run show ?thesis by simp
qed

subsection \<open>One silent item collapses the batch\<close>











subsection \<open>What the returned slices hold\<close>
















lemma Value_Interface_nil_book: "Value_Interface nil_book = Some nil_book"
  by (simp add: Value_Interface_def nil_book_def)






subsection \<open>A failed key extraction costs one item only\<close>






end
